theory Spec2Isabelle
  imports Main "HOL-Library.Sublist" "HOL-Library.AList"
begin

section \<open>JavaScript values and exceptions\<close>

text \<open>
  The client is TypeScript, but every server reply enters it through
  \<^verbatim>\<open>response.json()\<close> and an unchecked cast, so at run time the code handles
  untyped values. \<open>jsval\<close> is the value a reply decodes to, with \<open>JUndefined\<close>
  for what a read of a missing property yields. Strings are lists of \<open>char\<close>; the
  Japanese literals of the source are given by their UTF-8 bytes. A number is kept as
  its canonical rendering \<^verbatim>\<open>String(x)\<close>: both zeros render as \<open>0\<close>, and a decoded
  reply never holds NaN, so a number is falsy exactly when its rendering is \<open>0\<close>.
  An object is the list of its own properties; a read finds the first binding of a key.
\<close>

datatype jsval =
    JUndefined
  | JNull
  | JBool bool
  | JNum string
  | JStr string
  | JArr "jsval list"
  | JObj "(string \<times> jsval) list"

text \<open>
  A thrown value: an \<^verbatim>\<open>Error\<close> instance with its name and message, or any other
  value, kept as its rendering \<^verbatim>\<open>String(value)\<close>.
\<close>

datatype js_exn =
    JsError string string
  | NonError string

text \<open>\<^verbatim>\<open>error instanceof Error ? error.message : 'Unknown error'\<close>\<close>

fun error_message :: "js_exn \<Rightarrow> string" where
  "error_message (JsError n m) = m"
| "error_message (NonError s) = ''Unknown error''"

text \<open>\<^verbatim>\<open>String(error)\<close>, for an Error instance \<^verbatim>\<open>Error.prototype.toString\<close>.\<close>

fun String_error :: "js_exn \<Rightarrow> string" where
  "String_error (JsError n m) =
     (if n = [] then m else if m = [] then n else n @ '': '' @ m)"
| "String_error (NonError s) = s"

text \<open>Sequencing of steps that may throw: the first exception ends the block.\<close>

fun andThen :: "js_exn + 'a \<Rightarrow> ('a \<Rightarrow> js_exn + 'b) \<Rightarrow> js_exn + 'b" where
  "andThen (Inl e) f = Inl e"
| "andThen (Inr x) f = f x"

text \<open>Truthiness, as \<^verbatim>\<open>!value\<close> and \<^verbatim>\<open>&&\<close> test it.\<close>

fun truthy :: "jsval \<Rightarrow> bool" where
  "truthy JUndefined = False"
| "truthy JNull = False"
| "truthy (JBool b) = b"
| "truthy (JNum n) = (n \<noteq> ''0'')"
| "truthy (JStr s) = (s \<noteq> [])"
| "truthy (JArr xs) = True"
| "truthy (JObj kvs) = True"

fun typeof :: "jsval \<Rightarrow> string" where
  "typeof JUndefined = ''undefined''"
| "typeof JNull = ''object''"
| "typeof (JBool b) = ''boolean''"
| "typeof (JNum n) = ''number''"
| "typeof (JStr s) = ''string''"
| "typeof (JArr xs) = ''object''"
| "typeof (JObj kvs) = ''object''"

text \<open>
  \<^verbatim>\<open>key in value\<close> for an object or an array (on a primitive it throws, and the
  type guard below only reaches it behind a \<^verbatim>\<open>typeof value === 'object'\<close> test).
  The keys the program asks for (\<open>response\<close>, \<open>token\<close>) are neither array indices
  nor inherited properties, so only an object's own keys count.
\<close>

fun hasKey :: "string \<Rightarrow> jsval \<Rightarrow> bool" where
  "hasKey k (JObj kvs) = (k \<in> fst ` set kvs)"
| "hasKey k v = False"

text \<open>
  \<^verbatim>\<open>value.key\<close> on a value that is neither undefined nor null. The program reads
  the names \<open>messages\<close>, \<open>code\<close>, \<open>message\<close>, \<open>response\<close>, \<open>token\<close>, \<open>data\<close> and the
  six descriptor fields; none is inherited from a prototype, so on an array or a
  primitive the read gives undefined.
\<close>

fun member :: "jsval \<Rightarrow> string \<Rightarrow> jsval" where
  "member (JObj kvs) k = (case map_of kvs k of None \<Rightarrow> JUndefined | Some v \<Rightarrow> v)"
| "member v k = JUndefined"

text \<open>The TypeError of a read on undefined or null (the message is V8's).\<close>

definition TypeError_read :: "string \<Rightarrow> string \<Rightarrow> js_exn" where
  "TypeError_read base k =
     JsError ''TypeError''
       (''Cannot read properties of '' @ base @ '' (reading '' @ [CHR 0x27] @ k @ [CHR 0x27] @ '')'')"

text \<open>\<^verbatim>\<open>value.key\<close> in general.\<close>

fun getProp :: "jsval \<Rightarrow> string \<Rightarrow> js_exn + jsval" where
  "getProp JUndefined k = Inl (TypeError_read ''undefined'' k)"
| "getProp JNull k = Inl (TypeError_read ''null'' k)"
| "getProp v k = Inr (member v k)"

text \<open>
  \<^verbatim>\<open>value[0]\<close>: the first element of an array, the first unit of a string, the
  property \<open>0\<close> of an object, undefined on a number or a boolean.
\<close>

fun getIndex0 :: "jsval \<Rightarrow> js_exn + jsval" where
  "getIndex0 JUndefined = Inl (TypeError_read ''undefined'' ''0'')"
| "getIndex0 JNull = Inl (TypeError_read ''null'' ''0'')"
| "getIndex0 (JArr xs) = Inr (case xs of [] \<Rightarrow> JUndefined | x # rest \<Rightarrow> x)"
| "getIndex0 (JStr s) = Inr (case s of [] \<Rightarrow> JUndefined | c # rest \<Rightarrow> JStr [c])"
| "getIndex0 (JObj kvs) = Inr (member (JObj kvs) ''0'')"
| "getIndex0 v = Inr JUndefined"

text \<open>
  The conversion a template literal applies to an interpolated value. An array is
  joined with commas (null and undefined elements give the empty string); a decoded
  object has no callable \<^verbatim>\<open>toString\<close> of its own, so it renders as
  \<^verbatim>\<open>[object Object]\<close> unless it has an own property of that name, which makes
  the conversion throw.
\<close>

fun ToString :: "jsval \<Rightarrow> js_exn + string"
  and join :: "jsval list \<Rightarrow> js_exn + string" where
  "ToString JUndefined = Inr ''undefined''"
| "ToString JNull = Inr ''null''"
| "ToString (JBool b) = Inr (if b then ''true'' else ''false'')"
| "ToString (JNum n) = Inr n"
| "ToString (JStr s) = Inr s"
| "ToString (JArr xs) = join xs"
| "ToString (JObj kvs) =
     (if ''toString'' \<in> fst ` set kvs
      then Inl (JsError ''TypeError'' ''Cannot convert object to primitive value'')
      else Inr ''[object Object]'')"
| "join [] = Inr []"
| "join (x # xs) =
     andThen (if x = JUndefined \<or> x = JNull then Inr [] else ToString x)
       (\<lambda>s. if xs = [] then Inr s else andThen (join xs) (\<lambda>t. Inr (s @ '','' @ t)))"

text \<open>A status code in a template literal: its decimal digits.\<close>

fun decimal :: "nat \<Rightarrow> string" where
  "decimal n =
     (if n < 10 then [''0123456789'' ! n]
      else decimal (n div 10) @ [''0123456789'' ! (n mod 10)])"

declare decimal.simps [simp del]

text \<open>An environment variable in a template literal: unset reads as \<open>undefined\<close>.\<close>

fun template :: "string option \<Rightarrow> string" where
  "template None = ''undefined''"
| "template (Some s) = s"

section \<open>The runtime the client calls into\<close>

text \<open>
  \<^verbatim>\<open>RequestInit\<close> holds what the program sets of a request; the helper's
  options add \<open>fieldName\<close> and \<open>searchText\<close>, each a string or undefined.
\<close>

record request_init =
  http_method :: string
  headers :: "(string \<times> string) list"
  body :: "string option"

record options = request_init +
  fieldName :: "string option"
  searchText :: "string option"

text \<open>
  What one \<^verbatim>\<open>fetch\<close> call does: it rejects, or it resolves to a response with a
  status and a body on which \<^verbatim>\<open>response.json()\<close> throws or gives a value.
\<close>

datatype http_body = Undecodable js_exn | Decoded jsval

datatype fetch_outcome = Rejected js_exn | Responded nat http_body

text \<open>
  The library and the process environment, as parameters: \<^verbatim>\<open>fetch\<close>,
  \<^verbatim>\<open>JSON.stringify\<close>, \<^verbatim>\<open>Buffer.from(s).toString('base64')\<close>, and the
  variables read from \<^verbatim>\<open>process.env\<close>. Writes to the console are not modelled.
\<close>

record runtime =
  fetch :: "string \<Rightarrow> request_init \<Rightarrow> fetch_outcome"
  JSON_stringify :: "jsval \<Rightarrow> string"
  base64 :: "string \<Rightarrow> string"
  FILEMAKER_SERVER_URL :: "string option"
  FILEMAKER_ACCOUNT :: "string option"
  FILEMAKER_PASSWORD :: "string option"
  FILEMAKER_LAYOUT :: "string option"

text \<open>\<^verbatim>\<open>response.ok\<close>\<close>

definition ok :: "nat \<Rightarrow> bool" where
  "ok status = (200 \<le> status \<and> status \<le> 299)"

text \<open>\<^verbatim>\<open>{ 'Content-Type': 'application/json', ...options.headers }\<close>\<close>

definition merge_headers :: "(string \<times> string) list \<Rightarrow> (string \<times> string) list" where
  "merge_headers hs =
     fold (\<lambda>(k, v). AList.update k v) hs [(''Content-Type'', ''application/json'')]"

text \<open>
  \<^verbatim>\<open>await fetch(url, init)\<close> and \<^verbatim>\<open>await response.json()\<close>: a rejection is
  thrown where the call is awaited.
\<close>

fun await_fetch :: "fetch_outcome \<Rightarrow> js_exn + nat \<times> http_body" where
  "await_fetch (Rejected e) = Inl e"
| "await_fetch (Responded status b) = Inr (status, b)"

fun response_json :: "http_body \<Rightarrow> js_exn + jsval" where
  "response_json (Undecodable e) = Inl e"
| "response_json (Decoded d) = Inr d"

text \<open>\<^verbatim>\<open>try { block } catch (error) { handler }\<close>\<close>

fun tryCatch :: "js_exn + 'a \<Rightarrow> (js_exn \<Rightarrow> js_exn + 'a) \<Rightarrow> js_exn + 'a" where
  "tryCatch (Inl e) handler = handler e"
| "tryCatch (Inr x) handler = Inr x"

section \<open>Result envelopes\<close>

datatype error_type = INVALID_RESPONSE | FILEMAKER_ERROR | API_ERROR

text \<open>
  \<open>message\<close> is declared a string, but the FILEMAKER_ERROR branch stores whatever
  the reply holds at \<^verbatim>\<open>messages[0].message\<close>, so it is a \<open>jsval\<close>.
  In an envelope an absent \<open>data\<close> reads as undefined; an absent \<open>error\<close> is \<open>None\<close>.
\<close>

record error_info =
  type :: error_type
  message :: jsval
  details :: "(string \<times> jsval) list"

record envelope =
  success :: bool
  data :: jsval
  error :: "error_info option"

definition failure :: "error_type \<Rightarrow> jsval \<Rightarrow> (string \<times> jsval) list \<Rightarrow> envelope" where
  "failure t m d =
     \<lparr>success = False, data = JUndefined,
      error = Some \<lparr>type = t, message = m, details = d\<rparr>\<rparr>"

definition succeed :: "jsval \<Rightarrow> envelope" where
  "succeed d = \<lparr>success = True, data = d, error = None\<rparr>"

text \<open>
  The three literals of the source that are not ASCII, as UTF-8: the message of an
  INVALID_RESPONSE (\<open>FileMaker\<close> and fourteen kana and kanji, "the reply of the
  FileMaker server is invalid"), the message of the HTTP error in the token release
  and the metadata fetch (\<open>HTTP\<close>, three kana, \<open>! \<close>, five kana, \<open>: \<close> and the
  status), and the message of the error the token release throws on a code other than
  \<open>0\<close> (\<open>FileMaker\<close>, three kana, \<open>: \<close> and the reply's message).
\<close>

definition invalid_response_message :: string where
  "invalid_response_message =
     ''FileMaker'' @
     [CHR 0xE3, CHR 0x82, CHR 0xB5, CHR 0xE3, CHR 0x83, CHR 0xBC, CHR 0xE3, CHR 0x83, CHR 0x90,
      CHR 0xE3, CHR 0x83, CHR 0xBC, CHR 0xE3, CHR 0x81, CHR 0x8B, CHR 0xE3, CHR 0x82, CHR 0x89,
      CHR 0xE3, CHR 0x81, CHR 0xAE, CHR 0xE5, CHR 0xBF, CHR 0x9C, CHR 0xE7, CHR 0xAD, CHR 0x94,
      CHR 0xE3, CHR 0x81, CHR 0x8C, CHR 0xE7, CHR 0x84, CHR 0xA1, CHR 0xE5, CHR 0x8A, CHR 0xB9,
      CHR 0xE3, CHR 0x81, CHR 0xA7, CHR 0xE3, CHR 0x81, CHR 0x99]"

definition http_error_message :: "nat \<Rightarrow> string" where
  "http_error_message status =
     ''HTTP'' @
     [CHR 0xE3, CHR 0x82, CHR 0xA8, CHR 0xE3, CHR 0x83, CHR 0xA9, CHR 0xE3, CHR 0x83, CHR 0xBC] @
     ''! '' @
     [CHR 0xE3, CHR 0x82, CHR 0xB9, CHR 0xE3, CHR 0x83, CHR 0x86, CHR 0xE3, CHR 0x83, CHR 0xBC,
      CHR 0xE3, CHR 0x82, CHR 0xBF, CHR 0xE3, CHR 0x82, CHR 0xB9] @
     '': '' @ decimal status"

definition filemaker_error_message :: "string \<Rightarrow> string" where
  "filemaker_error_message m =
     ''FileMaker'' @
     [CHR 0xE3, CHR 0x82, CHR 0xA8, CHR 0xE3, CHR 0x83, CHR 0xA9, CHR 0xE3, CHR 0x83, CHR 0xBC] @
     '': '' @ m"

section \<open>The reading of a reply\<close>

text \<open>
  \<^verbatim>\<open>response.messages[0]\<close>, \<^verbatim>\<open>response.messages[0].code\<close> and
  \<^verbatim>\<open>response.messages[0].message\<close>, each of which throws a TypeError when a
  step of the path is undefined or null.
\<close>

definition messages0 :: "jsval \<Rightarrow> js_exn + jsval" where
  "messages0 response = andThen (getProp response ''messages'') getIndex0"

definition embedded_code :: "jsval \<Rightarrow> js_exn + jsval" where
  "embedded_code response = andThen (messages0 response) (\<lambda>m. getProp m ''code'')"

definition embedded_message :: "jsval \<Rightarrow> js_exn + jsval" where
  "embedded_message response = andThen (messages0 response) (\<lambda>m. getProp m ''message'')"

text \<open>\<^verbatim>\<open>response.response.token\<close> and \<^verbatim>\<open>response.response.data\<close>\<close>

definition response_member :: "jsval \<Rightarrow> string \<Rightarrow> js_exn + jsval" where
  "response_member response k = andThen (getProp response ''response'') (\<lambda>r. getProp r k)"

text \<open>
  The type guard. Each read stands behind the tests that make it safe, as the
  chain of \<^verbatim>\<open>&&\<close> has them.
\<close>

definition isTokenResponse :: "jsval \<Rightarrow> bool" where
  "isTokenResponse d =
     (truthy d \<and>
      typeof d = ''object'' \<and>
      hasKey ''response'' d \<and>
      typeof (member d ''response'') = ''object'' \<and>
      member d ''response'' \<noteq> JNull \<and>
      hasKey ''token'' (member d ''response'') \<and>
      typeof (member (member d ''response'') ''token'') = ''string'')"

section \<open>The client with token release and layout metadata (part 001)\<close>

text \<open>
  Each operation takes the runtime first and then the arguments of the source, in the
  source's order. The parameters the source calls \<open>fieldName\<close> and \<open>searchText\<close>
  are written \<open>fname\<close> and \<open>stext\<close>, the two names being those of the option
  fields. An operation's value is \<open>Inl\<close> of what it throws or \<open>Inr\<close> of what it
  returns.
\<close>

text \<open>The object literal \<^verbatim>\<open>{ query: [ { [fieldName]: `=${searchText}` } ] }\<close>\<close>

definition query_document :: "string \<Rightarrow> string \<Rightarrow> jsval" where
  "query_document fname stext = JObj [(''query'', JArr [JObj [(fname, JStr (''='' @ stext))]])]"

text \<open>
  The options after the helper's first statement: a body is set when the field
  name and the search text are both truthy and the URL contains \<open>/_find\<close>.
\<close>

definition with_query :: "runtime \<Rightarrow> string \<Rightarrow> options \<Rightarrow> options" where
  "with_query rt url opts =
     (case (fieldName opts, searchText opts) of
        (Some fname, Some stext) \<Rightarrow>
          if fname \<noteq> [] \<and> stext \<noteq> [] \<and> sublist ''/_find'' url
          then opts\<lparr>body := Some (JSON_stringify rt (query_document fname stext))\<rparr>
          else opts
      | _ \<Rightarrow> opts)"

text \<open>The second argument of the helper's \<^verbatim>\<open>fetch\<close> call: \<^verbatim>\<open>{ ...options, headers }\<close>.\<close>

definition sent_init :: "runtime \<Rightarrow> string \<Rightarrow> options \<Rightarrow> request_init" where
  "sent_init rt url opts =
     \<lparr>http_method = http_method (with_query rt url opts),
      headers = merge_headers (headers opts),
      body = body (with_query rt url opts)\<rparr>"

definition makeFileMakerRequest :: "runtime \<Rightarrow> string \<Rightarrow> options \<Rightarrow> js_exn + jsval" where
  "makeFileMakerRequest rt url opts =
     tryCatch
       (andThen (await_fetch (fetch rt url (sent_init rt url opts)))
          (\<lambda>(status, b).
             if \<not> ok status
             then Inl (JsError ''Error'' (''HTTP error! status: '' @ decimal status))
             else response_json b))
       (\<lambda>error. Inr JNull)"

definition DEFAULT_SERVER_URL :: "runtime \<Rightarrow> string" where
  "DEFAULT_SERVER_URL rt = template (FILEMAKER_SERVER_URL rt)"

definition sessions_url :: "runtime \<Rightarrow> string \<Rightarrow> string" where
  "sessions_url rt fileName =
     DEFAULT_SERVER_URL rt @ ''/fmi/data/v1/databases/'' @ fileName @ ''/sessions''"

definition token_options :: "runtime \<Rightarrow> options" where
  "token_options rt =
     \<lparr>http_method = ''POST'',
      headers = [(''Authorization'',
        ''Basic '' @ base64 rt (template (FILEMAKER_ACCOUNT rt) @ '':'' @ template (FILEMAKER_PASSWORD rt)))],
      body = None, fieldName = None, searchText = None\<rparr>"

definition getFileMakerToken :: "runtime \<Rightarrow> string \<Rightarrow> js_exn + envelope" where
  "getFileMakerToken rt fileName =
     (let url = sessions_url rt fileName in
      tryCatch
        (andThen (makeFileMakerRequest rt url (token_options rt))
           (\<lambda>response.
              if \<not> truthy response \<or> \<not> isTokenResponse response
              then Inr (failure INVALID_RESPONSE (JStr invalid_response_message) [(''url'', JStr url)])
              else andThen (embedded_code response)
                (\<lambda>c. if c \<noteq> JStr ''0''
                   then andThen (embedded_message response)
                     (\<lambda>m. andThen (embedded_code response)
                        (\<lambda>code. Inr (failure FILEMAKER_ERROR m [(''code'', code), (''url'', JStr url)])))
                   else andThen (response_member response ''token'')
                     (\<lambda>token. Inr (succeed (JObj [(''token'', token)]))))))
        (\<lambda>error. Inr (failure API_ERROR (JStr (error_message error))
           [(''url'', JStr url), (''originalError'', JStr (String_error error))])))"

definition token_url :: "runtime \<Rightarrow> string \<Rightarrow> string \<Rightarrow> string" where
  "token_url rt fileName token =
     DEFAULT_SERVER_URL rt @ ''/fmi/data/v1/databases/'' @ fileName @ ''/sessions/'' @ token"

definition abandon_init :: request_init where
  "abandon_init =
     \<lparr>http_method = ''DELETE'', headers = [(''Content-Type'', ''application/json'')], body = None\<rparr>"

definition abandonFileMakerToken :: "runtime \<Rightarrow> string \<Rightarrow> string \<Rightarrow> js_exn + unit" where
  "abandonFileMakerToken rt fileName token =
     (let url = token_url rt fileName token in
      tryCatch
        (andThen (await_fetch (fetch rt url abandon_init))
           (\<lambda>(status, b).
              if \<not> ok status
              then Inl (JsError ''Error'' (http_error_message status))
              else andThen (response_json b)
                (\<lambda>d. andThen (embedded_code d)
                   (\<lambda>c. if c \<noteq> JStr ''0''
                      then andThen (embedded_message d)
                        (\<lambda>m. andThen (ToString m)
                           (\<lambda>s. Inl (JsError ''Error'' (filemaker_error_message s))))
                      else Inr ()))))
        (\<lambda>error. Inl error))"

definition layout_url :: "runtime \<Rightarrow> string \<Rightarrow> string \<Rightarrow> string" where
  "layout_url rt fileName layoutName =
     DEFAULT_SERVER_URL rt @ ''/fmi/data/v1/databases/'' @ fileName @ ''/layouts/'' @ layoutName"

definition metadata_init :: "string \<Rightarrow> request_init" where
  "metadata_init token =
     \<lparr>http_method = ''GET'',
      headers = [(''Content-Type'', ''application/json''), (''Authorization'', ''Bearer '' @ token)],
      body = None\<rparr>"

definition getLayoutMetaData :: "runtime \<Rightarrow> string \<Rightarrow> string \<Rightarrow> string \<Rightarrow> js_exn + envelope" where
  "getLayoutMetaData rt fileName layoutName token =
     (let url = layout_url rt fileName layoutName in
      tryCatch
        (andThen (await_fetch (fetch rt url (metadata_init token)))
           (\<lambda>(status, b).
              if \<not> ok status
              then Inl (JsError ''Error'' (http_error_message status))
              else andThen (response_json b)
                (\<lambda>d. andThen (embedded_code d)
                   (\<lambda>c. if c \<noteq> JStr ''0''
                      then andThen (embedded_message d)
                        (\<lambda>m. andThen (embedded_code d)
                           (\<lambda>code. Inr (failure FILEMAKER_ERROR m
                              [(''code'', code), (''fileName'', JStr fileName),
                               (''layoutName'', JStr layoutName)])))
                      else Inr (succeed d)))))
        (\<lambda>error. Inr (failure API_ERROR (JStr (error_message error))
           [(''fileName'', JStr fileName), (''layoutName'', JStr layoutName),
            (''originalError'', JStr (String_error error))])))"

definition find_url :: "runtime \<Rightarrow> string \<Rightarrow> string \<Rightarrow> string" where
  "find_url rt fileName layoutName = layout_url rt fileName layoutName @ ''/_find''"

definition find_options :: "string \<Rightarrow> string \<Rightarrow> string \<Rightarrow> options" where
  "find_options fname stext token =
     \<lparr>http_method = ''POST'', headers = [(''Authorization'', ''Bearer '' @ token)],
      body = None, fieldName = Some fname, searchText = Some stext\<rparr>"

definition findRecords ::
  "runtime \<Rightarrow> string \<Rightarrow> string \<Rightarrow> string \<Rightarrow> string \<Rightarrow> string \<Rightarrow> js_exn + envelope" where
  "findRecords rt fname stext token fileName layoutName =
     tryCatch
       (andThen (makeFileMakerRequest rt (find_url rt fileName layoutName) (find_options fname stext token))
          (\<lambda>response.
             if \<not> truthy response
             then Inr (failure INVALID_RESPONSE (JStr invalid_response_message)
                    [(''fileName'', JStr fileName), (''layoutName'', JStr layoutName)])
             else andThen (embedded_code response)
               (\<lambda>c. if c \<noteq> JStr ''0''
                  then andThen (embedded_message response)
                    (\<lambda>m. andThen (embedded_code response)
                       (\<lambda>code. Inr (failure FILEMAKER_ERROR m
                          [(''code'', code), (''fileName'', JStr fileName),
                           (''layoutName'', JStr layoutName)])))
                  else andThen (response_member response ''data'')
                    (\<lambda>d. Inr (succeed d)))))
       (\<lambda>error. Inr (failure API_ERROR (JStr (error_message error))
          [(''fileName'', JStr fileName), (''layoutName'', JStr layoutName),
           (''originalError'', JStr (String_error error))]))"

subsection \<open>The descriptor reduction of the metadata tool\<close>

text \<open>
  The callback of \<^verbatim>\<open>fieldMetaData.map\<close>: it reads six properties of a field and
  builds an object of them. A read on a null element throws.
\<close>

definition reduce_descriptor :: "jsval \<Rightarrow> js_exn + jsval" where
  "reduce_descriptor field =
     andThen (getProp field ''name'') (\<lambda>n.
     andThen (getProp field ''type'') (\<lambda>t.
     andThen (getProp field ''displayType'') (\<lambda>dt.
     andThen (getProp field ''result'') (\<lambda>r.
     andThen (getProp field ''valueList'') (\<lambda>vl.
     andThen (getProp field ''global'') (\<lambda>g.
       Inr (JObj [(''name'', n), (''type'', t), (''displayType'', dt), (''result'', r),
                  (''valueList'', vl), (''global'', g)])))))))"

text \<open>\<^verbatim>\<open>Array.prototype.map\<close> with a callback that may throw.\<close>

fun map_array :: "('a \<Rightarrow> js_exn + 'b) \<Rightarrow> 'a list \<Rightarrow> js_exn + 'b list" where
  "map_array f [] = Inr []"
| "map_array f (x # xs) = andThen (f x) (\<lambda>y. andThen (map_array f xs) (\<lambda>ys. Inr (y # ys)))"

definition fieldInfo :: "jsval list \<Rightarrow> js_exn + jsval list" where
  "fieldInfo fieldMetaData = map_array reduce_descriptor fieldMetaData"

section \<open>The snapshot that builds the query in findRecords (part 000)\<close>

text \<open>\<^verbatim>\<open>process.env.NAME || 'fallback'\<close> and a default parameter value.\<close>

fun or_else :: "string option \<Rightarrow> string \<Rightarrow> string" where
  "or_else None d = d"
| "or_else (Some s) d = (if s \<noteq> [] then s else d)"

fun param_default :: "string option \<Rightarrow> string \<Rightarrow> string" where
  "param_default None d = d"
| "param_default (Some s) d = s"

definition DEFAULT_SERVER_URL_part_000 :: "runtime \<Rightarrow> string" where
  "DEFAULT_SERVER_URL_part_000 rt = or_else (FILEMAKER_SERVER_URL rt) ''https://obfms.com''"

definition DEFAULT_LAYOUT_part_000 :: "runtime \<Rightarrow> string" where
  "DEFAULT_LAYOUT_part_000 rt = or_else (FILEMAKER_LAYOUT rt) []"

text \<open>
  This helper sets no body of its own. The snapshot with the token tool alone
  (index.ts, from line 433) has the same helper.
\<close>

definition sent_init_part_000 :: "request_init \<Rightarrow> request_init" where
  "sent_init_part_000 opts = opts\<lparr>headers := merge_headers (headers opts)\<rparr>"

definition makeFileMakerRequest_part_000 :: "runtime \<Rightarrow> string \<Rightarrow> request_init \<Rightarrow> js_exn + jsval" where
  "makeFileMakerRequest_part_000 rt url opts =
     tryCatch
       (andThen (await_fetch (fetch rt url (sent_init_part_000 opts)))
          (\<lambda>(status, b).
             if \<not> ok status
             then Inl (JsError ''Error'' (''HTTP error! status: '' @ decimal status))
             else response_json b))
       (\<lambda>error. Inr JNull)"

definition find_url_part_000 :: "string \<Rightarrow> string \<Rightarrow> string \<Rightarrow> string" where
  "find_url_part_000 serverUrl fileName layoutName =
     serverUrl @ ''/fmi/data/v1/databases/'' @ fileName @ ''/layouts/'' @ layoutName @ ''/_find''"

definition find_options_part_000 :: "runtime \<Rightarrow> string \<Rightarrow> string \<Rightarrow> string \<Rightarrow> request_init" where
  "find_options_part_000 rt fname stext token =
     \<lparr>http_method = ''POST'', headers = [(''Authorization'', ''Bearer '' @ token)],
      body = Some (JSON_stringify rt (query_document fname stext))\<rparr>"

definition findRecords_part_000 ::
  "runtime \<Rightarrow> string \<Rightarrow> string \<Rightarrow> string \<Rightarrow> string \<Rightarrow> string option \<Rightarrow> string option
     \<Rightarrow> js_exn + envelope" where
  "findRecords_part_000 rt fileName fname stext token serverUrlArg layoutNameArg =
     (let serverUrl = param_default serverUrlArg (DEFAULT_SERVER_URL_part_000 rt);
          layoutName = param_default layoutNameArg (DEFAULT_LAYOUT_part_000 rt) in
      tryCatch
        (andThen (makeFileMakerRequest_part_000 rt (find_url_part_000 serverUrl fileName layoutName)
                    (find_options_part_000 rt fname stext token))
           (\<lambda>response.
              if \<not> truthy response
              then Inr (failure INVALID_RESPONSE (JStr invalid_response_message)
                     [(''serverUrl'', JStr serverUrl), (''fileName'', JStr fileName),
                      (''layoutName'', JStr layoutName)])
              else andThen (embedded_code response)
                (\<lambda>c. if c \<noteq> JStr ''0''
                   then andThen (embedded_message response)
                     (\<lambda>m. andThen (embedded_code response)
                        (\<lambda>code. Inr (failure FILEMAKER_ERROR m
                           [(''code'', code), (''serverUrl'', JStr serverUrl),
                            (''fileName'', JStr fileName), (''layoutName'', JStr layoutName)])))
                   else andThen (response_member response ''data'')
                     (\<lambda>d. Inr (succeed d)))))
        (\<lambda>error. Inr (failure API_ERROR (JStr (error_message error))
           [(''serverUrl'', JStr serverUrl), (''fileName'', JStr fileName),
            (''layoutName'', JStr layoutName), (''originalError'', JStr (String_error error))])))"

section \<open>The snapshot with the token tool alone (index.ts, lines 423 to 589)\<close>

text \<open>
  Its \<open>getFileMakerToken\<close> takes the account, the password and the server URL as
  optional arguments, and tests the response for absence only: it has no type guard.
  Its \<^verbatim>\<open>DEFAULT_SERVER_URL\<close> and its transport helper are, word for word, those
  of part 000.
\<close>

definition token_init_index_453 :: "runtime \<Rightarrow> string \<Rightarrow> string \<Rightarrow> request_init" where
  "token_init_index_453 rt account password =
     \<lparr>http_method = ''POST'',
      headers = [(''Authorization'', ''Basic '' @ base64 rt (account @ '':'' @ password))],
      body = None\<rparr>"

definition getFileMakerToken_index_453 ::
  "runtime \<Rightarrow> string \<Rightarrow> string option \<Rightarrow> string option \<Rightarrow> string option \<Rightarrow> js_exn + envelope" where
  "getFileMakerToken_index_453 rt fileName accountArg passwordArg serverUrlArg =
     (let account = param_default accountArg (or_else (FILEMAKER_ACCOUNT rt) []);
          password = param_default passwordArg (or_else (FILEMAKER_PASSWORD rt) []);
          serverUrl = param_default serverUrlArg (DEFAULT_SERVER_URL_part_000 rt);
          url = serverUrl @ ''/fmi/data/v1/databases/'' @ fileName @ ''/sessions'' in
      tryCatch
        (andThen (makeFileMakerRequest_part_000 rt url (token_init_index_453 rt account password))
           (\<lambda>response.
              if \<not> truthy response
              then Inr (failure INVALID_RESPONSE (JStr invalid_response_message) [(''url'', JStr url)])
              else andThen (embedded_code response)
                (\<lambda>c. if c \<noteq> JStr ''0''
                   then andThen (embedded_message response)
                     (\<lambda>m. andThen (embedded_code response)
                        (\<lambda>code. Inr (failure FILEMAKER_ERROR m [(''code'', code), (''url'', JStr url)])))
                   else andThen (response_member response ''token'')
                     (\<lambda>token. Inr (succeed (JObj [(''token'', token)]))))))
        (\<lambda>error. Inr (failure API_ERROR (JStr (error_message error))
           [(''url'', JStr url), (''originalError'', JStr (String_error error))])))"

section \<open>Notions the statements use\<close>

text \<open>
  A transport failure: the call rejects, the status is outside 200 to 299, or the
  body does not decode. \<open>delivered\<close> is what reaches the caller of the transport
  helper: the decoded body of a reply that is no transport failure, else null.
\<close>

definition transport_failure :: "fetch_outcome \<Rightarrow> bool" where
  "transport_failure out =
     (case out of
        Rejected e \<Rightarrow> True
      | Responded status b \<Rightarrow>
          if ok status then (case b of Undecodable e \<Rightarrow> True | Decoded d \<Rightarrow> False) else True)"

definition delivered :: "fetch_outcome \<Rightarrow> jsval" where
  "delivered out =
     (case out of
        Rejected e \<Rightarrow> JNull
      | Responded status b \<Rightarrow>
          if ok status then (case b of Undecodable e \<Rightarrow> JNull | Decoded d \<Rightarrow> d) else JNull)"

text \<open>The answer of the runtime to the one \<^verbatim>\<open>fetch\<close> call of each operation.\<close>

definition token_outcome :: "runtime \<Rightarrow> string \<Rightarrow> fetch_outcome" where
  "token_outcome rt fileName =
     fetch rt (sessions_url rt fileName)
       (sent_init rt (sessions_url rt fileName) (token_options rt))"

definition find_outcome ::
  "runtime \<Rightarrow> string \<Rightarrow> string \<Rightarrow> string \<Rightarrow> string \<Rightarrow> string \<Rightarrow> fetch_outcome" where
  "find_outcome rt fname stext token fileName layoutName =
     fetch rt (find_url rt fileName layoutName)
       (sent_init rt (find_url rt fileName layoutName) (find_options fname stext token))"

text \<open>
  The second argument of the \<^verbatim>\<open>fetch\<close> call a find invocation makes, in the
  client of part 001 and in the snapshot of part 000.
\<close>

definition find_init ::
  "runtime \<Rightarrow> string \<Rightarrow> string \<Rightarrow> string \<Rightarrow> string \<Rightarrow> string \<Rightarrow> request_init" where
  "find_init rt fname stext token fileName layoutName =
     sent_init rt (find_url rt fileName layoutName) (find_options fname stext token)"

definition find_init_part_000 :: "runtime \<Rightarrow> string \<Rightarrow> string \<Rightarrow> string \<Rightarrow> request_init" where
  "find_init_part_000 rt fname stext token =
     sent_init_part_000 (find_options_part_000 rt fname stext token)"

definition metadata_outcome :: "runtime \<Rightarrow> string \<Rightarrow> string \<Rightarrow> string \<Rightarrow> fetch_outcome" where
  "metadata_outcome rt fileName layoutName token =
     fetch rt (layout_url rt fileName layoutName) (metadata_init token)"

definition abandon_outcome :: "runtime \<Rightarrow> string \<Rightarrow> string \<Rightarrow> fetch_outcome" where
  "abandon_outcome rt fileName token = fetch rt (token_url rt fileName token) abandon_init"

text \<open>The error type of an envelope, if it carries an error.\<close>

definition error_kind :: "envelope \<Rightarrow> error_type option" where
  "error_kind env = (case error env of None \<Rightarrow> None | Some e \<Rightarrow> Some (type e))"

text \<open>
  What a failure envelope carries as its message: an error whose message is a
  string, or, for a FILEMAKER_ERROR, whatever the reply holds at
  \<^verbatim>\<open>messages[0].message\<close> (undefined when the reply has none).
\<close>

definition failure_message_from :: "jsval \<Rightarrow> envelope \<Rightarrow> bool" where
  "failure_message_from r env =
     (case error env of
        None \<Rightarrow> False
      | Some e \<Rightarrow>
          if type e = FILEMAKER_ERROR then embedded_message r = Inr (message e)
          else (\<exists>s. message e = JStr s))"

text \<open>A runtime whose every \<^verbatim>\<open>fetch\<close> call has the given outcome, for examples.\<close>

definition stub :: "fetch_outcome \<Rightarrow> runtime" where
  "stub out =
     \<lparr>fetch = (\<lambda>url init. out), JSON_stringify = (\<lambda>v. []), base64 = (\<lambda>s. s),
      FILEMAKER_SERVER_URL = Some ''https://fm.example'', FILEMAKER_ACCOUNT = Some ''admin'',
      FILEMAKER_PASSWORD = Some ''secret'', FILEMAKER_LAYOUT = None\<rparr>"

text \<open>A reply body \<^verbatim>\<open>{response: r, messages: [{code: c, message: m}]}\<close>.\<close>

definition reply :: "jsval \<Rightarrow> string \<Rightarrow> string \<Rightarrow> jsval" where
  "reply r c m =
     JObj [(''response'', r), (''messages'', JArr [JObj [(''code'', JStr c), (''message'', JStr m)]])]"

section \<open>Lemmas on the operations\<close>

subsection \<open>Reads and sequencing\<close>

lemma getProp_Inr: "getProp v k = Inr x \<Longrightarrow> v \<noteq> JUndefined \<and> v \<noteq> JNull \<and> x = member v k"
  by (cases v) auto

lemma getProp_defined: "v \<noteq> JUndefined \<Longrightarrow> v \<noteq> JNull \<Longrightarrow> getProp v k = Inr (member v k)"
  by (cases v) auto

lemma andThen_Inr: "andThen x f = Inr y \<Longrightarrow> \<exists>z. x = Inr z \<and> f z = Inr y"
  by (cases x) auto

lemma tryCatch_returns: "(\<And>e. \<exists>r. handler e = Inr r) \<Longrightarrow> \<exists>r. tryCatch x handler = Inr r"
  by (cases x) auto

lemma embedded_code_message:
  assumes "embedded_code r = Inr c"
  shows "\<exists>m. embedded_message r = Inr m"
proof -
  from assms obtain m0 where m0: "messages0 r = Inr m0" and c: "getProp m0 ''code'' = Inr c"
    unfolding embedded_code_def by (auto dest: andThen_Inr)
  from c have "m0 \<noteq> JUndefined" "m0 \<noteq> JNull" by (auto dest: getProp_Inr)
  then have "getProp m0 ''message'' = Inr (member m0 ''message'')" by (rule getProp_defined)
  with m0 show ?thesis by (simp add: embedded_message_def)
qed

lemma embedded_code_truthy:
  assumes "embedded_code r = Inr c"
  shows "truthy r"
proof -
  from assms obtain ms m0 where ms: "getProp r ''messages'' = Inr ms" and i: "getIndex0 ms = Inr m0"
    unfolding embedded_code_def messages0_def by (auto dest!: andThen_Inr)
  from i have "ms \<noteq> JUndefined" by (cases ms) auto
  with ms show ?thesis by (cases r) auto
qed

lemma embedded_code_object:
  assumes "embedded_code r = Inr c"
  shows "\<exists>props. r = JObj props"
proof -
  from assms obtain ms m0 where ms: "getProp r ''messages'' = Inr ms" and i: "getIndex0 ms = Inr m0"
    unfolding embedded_code_def messages0_def by (auto dest!: andThen_Inr)
  from i have "ms \<noteq> JUndefined" by (cases ms) auto
  with ms show ?thesis by (cases r) auto
qed

lemma isTokenResponse_token:
  assumes "isTokenResponse r"
  shows "\<exists>t. response_member r ''token'' = Inr (JStr t)"
proof -
  from assms have obj: "typeof (member r ''response'') = ''object''"
    and nn: "member r ''response'' \<noteq> JNull"
    and str: "typeof (member (member r ''response'') ''token'') = ''string''"
    and tr: "truthy r"
    by (simp_all add: isTokenResponse_def)
  from obj have nu: "member r ''response'' \<noteq> JUndefined" by auto
  from tr have r: "getProp r ''response'' = Inr (member r ''response'')" by (cases r) auto
  from str obtain t where t: "member (member r ''response'') ''token'' = JStr t"
    by (cases "member (member r ''response'') ''token''") auto
  from nu nn have "getProp (member r ''response'') ''token'' = Inr (member (member r ''response'') ''token'')"
    by (rule getProp_defined)
  with r t show ?thesis by (simp add: response_member_def)
qed

subsection \<open>The transport helper\<close>

lemma makeFileMakerRequest_delivered:
  "makeFileMakerRequest rt url opts = Inr (delivered (fetch rt url (sent_init rt url opts)))"
  by (simp add: makeFileMakerRequest_def delivered_def
      split: fetch_outcome.splits http_body.splits)

lemma makeFileMakerRequest_part_000_delivered:
  "makeFileMakerRequest_part_000 rt url opts = Inr (delivered (fetch rt url (sent_init_part_000 opts)))"
  by (simp add: makeFileMakerRequest_part_000_def delivered_def
      split: fetch_outcome.splits http_body.splits)

lemma transport_failure_delivered: "transport_failure out \<Longrightarrow> delivered out = JNull"
  by (simp add: transport_failure_def delivered_def split: fetch_outcome.splits http_body.splits if_splits)

lemma transport_failure_cases:
  assumes "transport_failure out"
  obtains e where "out = Rejected e"
  | status b where "out = Responded status b" "\<not> ok status"
  | status e where "out = Responded status (Undecodable e)" "ok status"
  using assms
  by (auto simp: transport_failure_def split: fetch_outcome.splits http_body.splits if_splits)

lemma not_transport_failure:
  assumes "\<not> transport_failure out"
  shows "\<exists>status. out = Responded status (Decoded (delivered out)) \<and> ok status"
  using assms
  by (auto simp: delivered_def transport_failure_def split: fetch_outcome.splits http_body.splits if_splits)

lemma delivered_object:
  assumes "delivered out = JObj props"
  shows "\<exists>status. out = Responded status (Decoded (JObj props)) \<and> ok status"
  using assms
  by (auto simp: delivered_def split: fetch_outcome.splits http_body.splits if_splits)

lemma embedded_code_delivered:
  assumes "embedded_code (delivered out) = Inr c"
  shows "\<exists>status. out = Responded status (Decoded (delivered out)) \<and> ok status"
proof -
  from assms obtain props where "delivered out = JObj props"
    using embedded_code_object by blast
  then show ?thesis using delivered_object by fastforce
qed

subsection \<open>Envelopes\<close>

lemma failure_facts:
  "\<not> success (failure t m ds)" "error_kind (failure t m ds) = Some t"
  "error (failure t m ds) = Some \<lparr>type = t, message = m, details = ds\<rparr>"
  by (simp_all add: failure_def error_kind_def)

lemma succeed_facts: "success (succeed d)" "data (succeed d) = d" "error (succeed d) = None"
  by (simp_all add: succeed_def)

lemma failure_message_from_string:
  "t \<noteq> FILEMAKER_ERROR \<Longrightarrow> failure_message_from r (failure t (JStr s) ds)"
  by (simp add: failure_message_from_def failure_def)

lemma failure_message_from_reply:
  "embedded_message r = Inr m \<Longrightarrow> failure_message_from r (failure FILEMAKER_ERROR m ds)"
  by (simp add: failure_message_from_def failure_def)

lemma String_error_http:
  "String_error (JsError ''Error'' (http_error_message status)) = ''Error: '' @ http_error_message status"
  by (simp add: http_error_message_def)

subsection \<open>findRecords, case by case\<close>

lemma findRecords_absent:
  assumes "\<not> truthy (delivered (find_outcome rt fname stext token fileName layoutName))"
  shows "findRecords rt fname stext token fileName layoutName =
         Inr (failure INVALID_RESPONSE (JStr invalid_response_message)
                [(''fileName'', JStr fileName), (''layoutName'', JStr layoutName)])"
  using assms by (simp add: findRecords_def makeFileMakerRequest_delivered find_outcome_def)

lemma findRecords_filemaker_error:
  assumes "embedded_code (delivered (find_outcome rt fname stext token fileName layoutName)) = Inr c"
    and "c \<noteq> JStr ''0''"
    and "embedded_message (delivered (find_outcome rt fname stext token fileName layoutName)) = Inr m"
  shows "findRecords rt fname stext token fileName layoutName =
         Inr (failure FILEMAKER_ERROR m
                [(''code'', c), (''fileName'', JStr fileName), (''layoutName'', JStr layoutName)])"
  using assms embedded_code_truthy [OF assms(1)]
  by (simp add: findRecords_def makeFileMakerRequest_delivered find_outcome_def)

lemma findRecords_filemaker_error_ex:
  assumes "embedded_code (delivered (find_outcome rt fname stext token fileName layoutName)) = Inr c"
    and "c \<noteq> JStr ''0''"
  shows "\<exists>m. embedded_message (delivered (find_outcome rt fname stext token fileName layoutName)) = Inr m \<and>
           findRecords rt fname stext token fileName layoutName =
             Inr (failure FILEMAKER_ERROR m
                    [(''code'', c), (''fileName'', JStr fileName), (''layoutName'', JStr layoutName)])"
proof -
  from assms(1) obtain m where
    m: "embedded_message (delivered (find_outcome rt fname stext token fileName layoutName)) = Inr m"
    using embedded_code_message by blast
  from findRecords_filemaker_error [OF assms m] m show ?thesis by blast
qed

lemma findRecords_unreadable:
  assumes "truthy (delivered (find_outcome rt fname stext token fileName layoutName))"
    and "embedded_code (delivered (find_outcome rt fname stext token fileName layoutName)) = Inl e"
  shows "findRecords rt fname stext token fileName layoutName =
         Inr (failure API_ERROR (JStr (error_message e))
                [(''fileName'', JStr fileName), (''layoutName'', JStr layoutName),
                 (''originalError'', JStr (String_error e))])"
  using assms
  by (simp add: findRecords_def makeFileMakerRequest_delivered find_outcome_def)

lemma findRecords_success:
  assumes "embedded_code (delivered (find_outcome rt fname stext token fileName layoutName)) = Inr (JStr ''0'')"
    and "response_member (delivered (find_outcome rt fname stext token fileName layoutName)) ''data'' = Inr d"
  shows "findRecords rt fname stext token fileName layoutName = Inr (succeed d)"
  using assms embedded_code_truthy [OF assms(1)]
  by (simp add: findRecords_def makeFileMakerRequest_delivered find_outcome_def)

lemma findRecords_no_response_member:
  assumes "embedded_code (delivered (find_outcome rt fname stext token fileName layoutName)) = Inr (JStr ''0'')"
    and "response_member (delivered (find_outcome rt fname stext token fileName layoutName)) ''data'' = Inl e"
  shows "findRecords rt fname stext token fileName layoutName =
         Inr (failure API_ERROR (JStr (error_message e))
                [(''fileName'', JStr fileName), (''layoutName'', JStr layoutName),
                 (''originalError'', JStr (String_error e))])"
  using assms embedded_code_truthy [OF assms(1)]
  by (simp add: findRecords_def makeFileMakerRequest_delivered find_outcome_def)

lemma findRecords_returns: "\<exists>r. findRecords rt fname stext token fileName layoutName = Inr r"
  unfolding findRecords_def by (rule tryCatch_returns) simp

lemma findRecords_contents:
  "\<exists>env. findRecords rt fname stext token fileName layoutName = Inr env \<and>
     (if success env
      then response_member (delivered (find_outcome rt fname stext token fileName layoutName)) ''data''
             = Inr (data env)
      else failure_message_from (delivered (find_outcome rt fname stext token fileName layoutName)) env)"
proof (cases "truthy (delivered (find_outcome rt fname stext token fileName layoutName))")
  case False
  then show ?thesis
    by (simp add: findRecords_absent failure_facts failure_message_from_string)
next
  case True
  show ?thesis
  proof (cases "embedded_code (delivered (find_outcome rt fname stext token fileName layoutName))")
    case (Inl e)
    with True show ?thesis
      by (simp add: findRecords_unreadable failure_facts failure_message_from_string)
  next
    case (Inr c)
    show ?thesis
    proof (cases "c = JStr ''0''")
      case False
      from Inr obtain m where
        "embedded_message (delivered (find_outcome rt fname stext token fileName layoutName)) = Inr m"
        using embedded_code_message by blast
      with Inr False show ?thesis
        by (simp add: findRecords_filemaker_error failure_facts failure_message_from_reply)
    next
      case zero: True
      show ?thesis
      proof (cases "response_member (delivered (find_outcome rt fname stext token fileName layoutName)) ''data''")
        case (Inl e)
        with Inr zero show ?thesis
          by (simp add: findRecords_no_response_member failure_facts failure_message_from_string)
      next
        case d: (Inr d)
        with Inr zero show ?thesis
          by (simp add: findRecords_success succeed_facts)
      qed
    qed
  qed
qed

subsection \<open>getFileMakerToken, case by case\<close>

lemma getFileMakerToken_invalid:
  assumes "\<not> isTokenResponse (delivered (token_outcome rt fileName))"
  shows "getFileMakerToken rt fileName =
         Inr (failure INVALID_RESPONSE (JStr invalid_response_message)
                [(''url'', JStr (sessions_url rt fileName))])"
  using assms
  by (simp add: getFileMakerToken_def makeFileMakerRequest_delivered token_outcome_def Let_def)

lemma getFileMakerToken_filemaker_error:
  assumes "isTokenResponse (delivered (token_outcome rt fileName))"
    and "embedded_code (delivered (token_outcome rt fileName)) = Inr c"
    and "c \<noteq> JStr ''0''"
    and "embedded_message (delivered (token_outcome rt fileName)) = Inr m"
  shows "getFileMakerToken rt fileName =
         Inr (failure FILEMAKER_ERROR m [(''code'', c), (''url'', JStr (sessions_url rt fileName))])"
  using assms embedded_code_truthy [OF assms(2)]
  by (simp add: getFileMakerToken_def makeFileMakerRequest_delivered token_outcome_def Let_def)

lemma getFileMakerToken_filemaker_error_ex:
  assumes "isTokenResponse (delivered (token_outcome rt db))"
    and "embedded_code (delivered (token_outcome rt db)) = Inr c"
    and "c \<noteq> JStr ''0''"
  shows "\<exists>m. embedded_message (delivered (token_outcome rt db)) = Inr m \<and>
           getFileMakerToken rt db =
             Inr (failure FILEMAKER_ERROR m [(''code'', c), (''url'', JStr (sessions_url rt db))])"
proof -
  from assms(2) obtain m where
    m: "embedded_message (delivered (token_outcome rt db)) = Inr m"
    using embedded_code_message by blast
  from getFileMakerToken_filemaker_error [OF assms m] m show ?thesis by blast
qed

lemma getFileMakerToken_unreadable:
  assumes "isTokenResponse (delivered (token_outcome rt fileName))"
    and "embedded_code (delivered (token_outcome rt fileName)) = Inl e"
  shows "getFileMakerToken rt fileName =
         Inr (failure API_ERROR (JStr (error_message e))
                [(''url'', JStr (sessions_url rt fileName)), (''originalError'', JStr (String_error e))])"
proof -
  from assms(1) have "truthy (delivered (token_outcome rt fileName))"
    by (simp add: isTokenResponse_def)
  with assms show ?thesis
    by (simp add: getFileMakerToken_def makeFileMakerRequest_delivered token_outcome_def Let_def)
qed

lemma getFileMakerToken_success:
  assumes "isTokenResponse (delivered (token_outcome rt fileName))"
    and "embedded_code (delivered (token_outcome rt fileName)) = Inr (JStr ''0'')"
    and "response_member (delivered (token_outcome rt fileName)) ''token'' = Inr t"
  shows "getFileMakerToken rt fileName = Inr (succeed (JObj [(''token'', t)]))"
  using assms embedded_code_truthy [OF assms(2)]
  by (simp add: getFileMakerToken_def makeFileMakerRequest_delivered token_outcome_def Let_def)

lemma getFileMakerToken_success_ex:
  assumes "isTokenResponse (delivered (token_outcome rt db))"
    and "embedded_code (delivered (token_outcome rt db)) = Inr (JStr ''0'')"
  shows "\<exists>t. response_member (delivered (token_outcome rt db)) ''token'' = Inr (JStr t) \<and>
           getFileMakerToken rt db = Inr (succeed (JObj [(''token'', JStr t)]))"
proof -
  from assms(1) obtain t where
    t: "response_member (delivered (token_outcome rt db)) ''token'' = Inr (JStr t)"
    using isTokenResponse_token by blast
  from getFileMakerToken_success [OF assms t] t show ?thesis by blast
qed

lemma getFileMakerToken_returns: "\<exists>r. getFileMakerToken rt fileName = Inr r"
  unfolding getFileMakerToken_def Let_def by (rule tryCatch_returns) simp

lemma getFileMakerToken_contents:
  "\<exists>env. getFileMakerToken rt db = Inr env \<and>
     (if success env
      then (\<exists>t. data env = JObj [(''token'', JStr t)])
      else failure_message_from (delivered (token_outcome rt db)) env)"
proof (cases "isTokenResponse (delivered (token_outcome rt db))")
  case False
  then show ?thesis
    by (simp add: getFileMakerToken_invalid failure_facts failure_message_from_string)
next
  case True
  show ?thesis
  proof (cases "embedded_code (delivered (token_outcome rt db))")
    case (Inl e)
    with True show ?thesis
      by (simp add: getFileMakerToken_unreadable failure_facts failure_message_from_string)
  next
    case (Inr c)
    show ?thesis
    proof (cases "c = JStr ''0''")
      case False
      from Inr obtain m where
        "embedded_message (delivered (token_outcome rt db)) = Inr m"
        using embedded_code_message by blast
      with True Inr False show ?thesis
        by (simp add: getFileMakerToken_filemaker_error failure_facts failure_message_from_reply)
    next
      case zero: True
      from True obtain t where "response_member (delivered (token_outcome rt db)) ''token'' = Inr (JStr t)"
        using isTokenResponse_token by blast
      with True Inr zero show ?thesis
        by (simp add: getFileMakerToken_success succeed_facts)
    qed
  qed
qed

subsection \<open>getLayoutMetaData, case by case\<close>

lemma getLayoutMetaData_rejected:
  assumes "metadata_outcome rt fileName layoutName token = Rejected e"
  shows "getLayoutMetaData rt fileName layoutName token =
         Inr (failure API_ERROR (JStr (error_message e))
                [(''fileName'', JStr fileName), (''layoutName'', JStr layoutName),
                 (''originalError'', JStr (String_error e))])"
  using assms by (simp add: getLayoutMetaData_def metadata_outcome_def Let_def)

lemma getLayoutMetaData_status:
  assumes "metadata_outcome rt fileName layoutName token = Responded status b" and "\<not> ok status"
  shows "getLayoutMetaData rt fileName layoutName token =
         Inr (failure API_ERROR (JStr (http_error_message status))
                [(''fileName'', JStr fileName), (''layoutName'', JStr layoutName),
                 (''originalError'', JStr (String_error (JsError ''Error'' (http_error_message status))))])"
  using assms by (simp add: getLayoutMetaData_def metadata_outcome_def Let_def)

lemma getLayoutMetaData_undecodable:
  assumes "metadata_outcome rt fileName layoutName token = Responded status (Undecodable e)" and "ok status"
  shows "getLayoutMetaData rt fileName layoutName token =
         Inr (failure API_ERROR (JStr (error_message e))
                [(''fileName'', JStr fileName), (''layoutName'', JStr layoutName),
                 (''originalError'', JStr (String_error e))])"
  using assms by (simp add: getLayoutMetaData_def metadata_outcome_def Let_def)

lemma getLayoutMetaData_transport_failure:
  assumes "transport_failure (metadata_outcome rt fileName layoutName token)"
  shows "\<exists>e. getLayoutMetaData rt fileName layoutName token =
           Inr (failure API_ERROR (JStr (error_message e))
                  [(''fileName'', JStr fileName), (''layoutName'', JStr layoutName),
                   (''originalError'', JStr (String_error e))])"
  using assms
proof (cases rule: transport_failure_cases)
  case (1 e)
  then show ?thesis by (blast intro: getLayoutMetaData_rejected)
next
  case (2 status b)
  then have "getLayoutMetaData rt fileName layoutName token =
         Inr (failure API_ERROR (JStr (error_message (JsError ''Error'' (http_error_message status))))
                [(''fileName'', JStr fileName), (''layoutName'', JStr layoutName),
                 (''originalError'', JStr (String_error (JsError ''Error'' (http_error_message status))))])"
    by (simp add: getLayoutMetaData_status)
  then show ?thesis by blast
next
  case (3 status e)
  then show ?thesis by (blast intro: getLayoutMetaData_undecodable)
qed

lemma getLayoutMetaData_unreadable:
  assumes "metadata_outcome rt fileName layoutName token = Responded status (Decoded d)" and "ok status"
    and "embedded_code d = Inl e"
  shows "getLayoutMetaData rt fileName layoutName token =
         Inr (failure API_ERROR (JStr (error_message e))
                [(''fileName'', JStr fileName), (''layoutName'', JStr layoutName),
                 (''originalError'', JStr (String_error e))])"
  using assms by (simp add: getLayoutMetaData_def metadata_outcome_def Let_def)

lemma getLayoutMetaData_filemaker_error:
  assumes "metadata_outcome rt fileName layoutName token = Responded status (Decoded d)" and "ok status"
    and "embedded_code d = Inr c" and "c \<noteq> JStr ''0''" and "embedded_message d = Inr m"
  shows "getLayoutMetaData rt fileName layoutName token =
         Inr (failure FILEMAKER_ERROR m
                [(''code'', c), (''fileName'', JStr fileName), (''layoutName'', JStr layoutName)])"
  using assms by (simp add: getLayoutMetaData_def metadata_outcome_def Let_def)

lemma getLayoutMetaData_success:
  assumes "metadata_outcome rt fileName layoutName token = Responded status (Decoded d)" and "ok status"
    and "embedded_code d = Inr (JStr ''0'')"
  shows "getLayoutMetaData rt fileName layoutName token = Inr (succeed d)"
  using assms by (simp add: getLayoutMetaData_def metadata_outcome_def Let_def)

lemma getLayoutMetaData_delivered_unreadable:
  assumes "\<not> transport_failure (metadata_outcome rt fileName layoutName token)"
    and "embedded_code (delivered (metadata_outcome rt fileName layoutName token)) = Inl e"
  shows "getLayoutMetaData rt fileName layoutName token =
         Inr (failure API_ERROR (JStr (error_message e))
                [(''fileName'', JStr fileName), (''layoutName'', JStr layoutName),
                 (''originalError'', JStr (String_error e))])"
proof -
  from assms(1) obtain status where out: "metadata_outcome rt fileName layoutName token =
      Responded status (Decoded (delivered (metadata_outcome rt fileName layoutName token)))"
    and ok: "ok status"
    using not_transport_failure by blast
  from out ok assms(2) show ?thesis by (rule getLayoutMetaData_unreadable)
qed

lemma getLayoutMetaData_delivered_filemaker_error:
  assumes "embedded_code (delivered (metadata_outcome rt fileName layoutName token)) = Inr c"
    and "c \<noteq> JStr ''0''"
  shows "\<exists>m. embedded_message (delivered (metadata_outcome rt fileName layoutName token)) = Inr m \<and>
           getLayoutMetaData rt fileName layoutName token =
             Inr (failure FILEMAKER_ERROR m
                    [(''code'', c), (''fileName'', JStr fileName), (''layoutName'', JStr layoutName)])"
proof -
  from assms(1) obtain status where out: "metadata_outcome rt fileName layoutName token =
      Responded status (Decoded (delivered (metadata_outcome rt fileName layoutName token)))"
    and ok: "ok status"
    using embedded_code_delivered by blast
  from assms(1) obtain m where
    m: "embedded_message (delivered (metadata_outcome rt fileName layoutName token)) = Inr m"
    using embedded_code_message by blast
  from getLayoutMetaData_filemaker_error [OF out ok assms m] m show ?thesis by blast
qed

lemma getLayoutMetaData_delivered_success:
  assumes "embedded_code (delivered (metadata_outcome rt fileName layoutName token)) = Inr (JStr ''0'')"
  shows "getLayoutMetaData rt fileName layoutName token =
           Inr (succeed (delivered (metadata_outcome rt fileName layoutName token)))"
proof -
  from assms obtain status where out: "metadata_outcome rt fileName layoutName token =
      Responded status (Decoded (delivered (metadata_outcome rt fileName layoutName token)))"
    and ok: "ok status"
    using embedded_code_delivered by blast
  from out ok assms show ?thesis by (rule getLayoutMetaData_success)
qed

lemma getLayoutMetaData_returns: "\<exists>r. getLayoutMetaData rt fileName layoutName token = Inr r"
  unfolding getLayoutMetaData_def Let_def by (rule tryCatch_returns) simp

lemma getLayoutMetaData_contents:
  "\<exists>env. getLayoutMetaData rt fileName layoutName token = Inr env \<and>
     (if success env
      then data env = delivered (metadata_outcome rt fileName layoutName token) \<and>
           (\<exists>props. data env = JObj props)
      else failure_message_from (delivered (metadata_outcome rt fileName layoutName token)) env) \<and>
     error_kind env \<noteq> Some INVALID_RESPONSE"
proof (cases "transport_failure (metadata_outcome rt fileName layoutName token)")
  case True
  then obtain e where "getLayoutMetaData rt fileName layoutName token =
           Inr (failure API_ERROR (JStr (error_message e))
                  [(''fileName'', JStr fileName), (''layoutName'', JStr layoutName),
                   (''originalError'', JStr (String_error e))])"
    using getLayoutMetaData_transport_failure by blast
  then show ?thesis
    by (simp add: failure_facts failure_message_from_string)
next
  case False
  then obtain status where out: "metadata_outcome rt fileName layoutName token =
      Responded status (Decoded (delivered (metadata_outcome rt fileName layoutName token)))"
    and ok: "ok status"
    using not_transport_failure by blast
  show ?thesis
  proof (cases "embedded_code (delivered (metadata_outcome rt fileName layoutName token))")
    case (Inl e)
    with out ok show ?thesis
      by (simp add: getLayoutMetaData_unreadable [OF out ok] failure_facts failure_message_from_string)
  next
    case (Inr c)
    show ?thesis
    proof (cases "c = JStr ''0''")
      case False
      from Inr obtain m where
        m: "embedded_message (delivered (metadata_outcome rt fileName layoutName token)) = Inr m"
        using embedded_code_message by blast
      show ?thesis
        by (simp add: getLayoutMetaData_filemaker_error [OF out ok Inr False m]
            failure_facts failure_message_from_reply m)
    next
      case True
      with Inr have z: "embedded_code (delivered (metadata_outcome rt fileName layoutName token)) = Inr (JStr ''0'')"
        by simp
      from z obtain props where "delivered (metadata_outcome rt fileName layoutName token) = JObj props"
        using embedded_code_object by blast
      then show ?thesis
        by (simp add: getLayoutMetaData_success [OF out ok z] succeed_facts error_kind_def)
    qed
  qed
qed

subsection \<open>abandonFileMakerToken, case by case\<close>

lemma abandon_rejected:
  assumes "abandon_outcome rt fileName token = Rejected e"
  shows "abandonFileMakerToken rt fileName token = Inl e"
  using assms by (simp add: abandonFileMakerToken_def abandon_outcome_def Let_def)

lemma abandon_status:
  assumes "abandon_outcome rt fileName token = Responded status b" and "\<not> ok status"
  shows "abandonFileMakerToken rt fileName token = Inl (JsError ''Error'' (http_error_message status))"
  using assms by (simp add: abandonFileMakerToken_def abandon_outcome_def Let_def)

lemma abandon_undecodable:
  assumes "abandon_outcome rt fileName token = Responded status (Undecodable e)" and "ok status"
  shows "abandonFileMakerToken rt fileName token = Inl e"
  using assms by (simp add: abandonFileMakerToken_def abandon_outcome_def Let_def)

lemma abandon_unreadable:
  assumes "abandon_outcome rt fileName token = Responded status (Decoded d)" and "ok status"
    and "embedded_code d = Inl e"
  shows "abandonFileMakerToken rt fileName token = Inl e"
  using assms by (simp add: abandonFileMakerToken_def abandon_outcome_def Let_def)

lemma abandon_nonzero:
  assumes "abandon_outcome rt fileName token = Responded status (Decoded d)" and "ok status"
    and "embedded_code d = Inr c" and "c \<noteq> JStr ''0''"
  shows "\<exists>e. abandonFileMakerToken rt fileName token = Inl e"
proof -
  from assms(3) obtain m where m: "embedded_message d = Inr m"
    using embedded_code_message by blast
  show ?thesis
  proof (cases "ToString m")
    case (Inl e)
    with assms m show ?thesis
      by (simp add: abandonFileMakerToken_def abandon_outcome_def Let_def)
  next
    case (Inr s)
    with assms m show ?thesis
      by (simp add: abandonFileMakerToken_def abandon_outcome_def Let_def)
  qed
qed

lemma abandon_zero:
  assumes "abandon_outcome rt fileName token = Responded status (Decoded d)" and "ok status"
    and "embedded_code d = Inr (JStr ''0'')"
  shows "abandonFileMakerToken rt fileName token = Inr ()"
  using assms by (simp add: abandonFileMakerToken_def abandon_outcome_def Let_def)

subsection \<open>The descriptor reduction\<close>

lemma reduce_descriptor_defined:
  assumes "field \<noteq> JUndefined" and "field \<noteq> JNull"
  shows "reduce_descriptor field =
         Inr (JObj [(''name'', member field ''name''), (''type'', member field ''type''),
                    (''displayType'', member field ''displayType''),
                    (''result'', member field ''result''),
                    (''valueList'', member field ''valueList''),
                    (''global'', member field ''global'')])"
  using assms by (simp add: reduce_descriptor_def getProp_defined)

lemma reduce_descriptor_Inr:
  assumes "reduce_descriptor field = Inr obj"
  shows "field \<noteq> JUndefined \<and> field \<noteq> JNull"
  using assms by (cases field) (auto simp: reduce_descriptor_def)

lemma reduce_descriptor_idem:
  assumes "reduce_descriptor field = Inr obj"
  shows "reduce_descriptor obj = Inr obj"
proof -
  from assms have "field \<noteq> JUndefined" "field \<noteq> JNull"
    using reduce_descriptor_Inr by blast+
  with assms have "obj = JObj [(''name'', member field ''name''), (''type'', member field ''type''),
                    (''displayType'', member field ''displayType''),
                    (''result'', member field ''result''),
                    (''valueList'', member field ''valueList''),
                    (''global'', member field ''global'')]"
    by (simp add: reduce_descriptor_defined)
  then show ?thesis by (simp add: reduce_descriptor_def)
qed

lemma map_array_Cons_Inr:
  assumes "map_array f (x # xs) = Inr zs"
  obtains y ys where "f x = Inr y" "map_array f xs = Inr ys" "zs = y # ys"
  using assms by (cases "f x"; cases "map_array f xs") auto

lemma map_array_idem:
  assumes "\<And>x y. f x = Inr y \<Longrightarrow> f y = Inr y"
  shows "map_array f xs = Inr ys \<Longrightarrow> map_array f ys = Inr ys"
proof (induction xs arbitrary: ys)
  case Nil
  then show ?case by simp
next
  case (Cons x xs)
  from Cons.prems obtain y ys' where y: "f x = Inr y" and ys': "map_array f xs = Inr ys'"
    and eq: "ys = y # ys'"
    by (rule map_array_Cons_Inr)
  from y have "f y = Inr y" by (rule assms)
  moreover from ys' have "map_array f ys' = Inr ys'" by (rule Cons.IH)
  ultimately show ?case using eq by simp
qed

lemma map_array_total:
  assumes "\<And>x. x \<in> set xs \<Longrightarrow> \<exists>y. f x = Inr y"
  shows "\<exists>ys. map_array f xs = Inr ys"
  using assms
proof (induction xs)
  case Nil
  then show ?case by simp
next
  case (Cons x xs)
  then obtain y where "f x = Inr y" by auto
  moreover from Cons obtain ys where "map_array f xs = Inr ys" by auto
  ultimately show ?case by simp
qed

subsection \<open>The request of a find invocation\<close>



lemma with_query_fetch_update:
  "with_query (rt\<lparr>fetch := f\<rparr>) url opts = with_query rt url opts"
  by (simp add: with_query_def split: option.splits)

lemma fetch_update_irrelevant:
  "find_url (rt\<lparr>fetch := f\<rparr>) fileName layoutName = find_url rt fileName layoutName"
  "sent_init (rt\<lparr>fetch := f\<rparr>) url opts = sent_init rt url opts"
  "find_options_part_000 (rt\<lparr>fetch := f\<rparr>) fname stext token = find_options_part_000 rt fname stext token"
  "DEFAULT_SERVER_URL_part_000 (rt\<lparr>fetch := f\<rparr>) = DEFAULT_SERVER_URL_part_000 rt"
  "DEFAULT_LAYOUT_part_000 (rt\<lparr>fetch := f\<rparr>) = DEFAULT_LAYOUT_part_000 rt"
  by (simp_all add: find_url_def layout_url_def DEFAULT_SERVER_URL_def sent_init_def
      with_query_fetch_update find_options_part_000_def DEFAULT_SERVER_URL_part_000_def DEFAULT_LAYOUT_part_000_def)

lemma findRecords_one_fetch:
  assumes "f (find_url rt fileName layoutName) (find_init rt fname stext token fileName layoutName) =
           fetch rt (find_url rt fileName layoutName) (find_init rt fname stext token fileName layoutName)"
  shows "findRecords (rt\<lparr>fetch := f\<rparr>) fname stext token fileName layoutName =
         findRecords rt fname stext token fileName layoutName"
  using assms
  by (simp add: findRecords_def makeFileMakerRequest_def find_init_def fetch_update_irrelevant)

lemma findRecords_part_000_one_fetch:
  assumes "f (find_url_part_000 (param_default serverUrlArg (DEFAULT_SERVER_URL_part_000 rt)) fileName
               (param_default layoutNameArg (DEFAULT_LAYOUT_part_000 rt)))
             (find_init_part_000 rt fname stext token) =
           fetch rt (find_url_part_000 (param_default serverUrlArg (DEFAULT_SERVER_URL_part_000 rt)) fileName
               (param_default layoutNameArg (DEFAULT_LAYOUT_part_000 rt)))
             (find_init_part_000 rt fname stext token)"
  shows "findRecords_part_000 (rt\<lparr>fetch := f\<rparr>) fileName fname stext token serverUrlArg layoutNameArg =
         findRecords_part_000 rt fileName fname stext token serverUrlArg layoutNameArg"
  using assms
  by (simp add: findRecords_part_000_def makeFileMakerRequest_part_000_def find_init_part_000_def
      fetch_update_irrelevant Let_def)

subsection \<open>Evaluation of the examples\<close>

lemma stub_outcomes:
  "token_outcome (stub out) db = out"
  "find_outcome (stub out) fname stext token fileName layoutName = out"
  "metadata_outcome (stub out) fileName layoutName token = out"
  "abandon_outcome (stub out) fileName token = out"
  by (simp_all add: token_outcome_def find_outcome_def metadata_outcome_def abandon_outcome_def stub_def)

lemma stub_sessions_url:
  "sessions_url (stub out) db = ''https://fm.example/fmi/data/v1/databases/'' @ db @ ''/sessions''"
  by (simp add: sessions_url_def DEFAULT_SERVER_URL_def stub_def)

lemma stub_delivered_ok:
  "delivered (Responded 200 (Decoded d)) = d"
  by (simp add: delivered_def ok_def)

lemma null_facts:
  "delivered (Rejected x) = JNull"
  "\<not> isTokenResponse JNull"
  "embedded_code JNull = Inl (TypeError_read ''null'' ''messages'')"
  by (simp_all add: delivered_def isTokenResponse_def embedded_code_def messages0_def)

lemma embedded_code_reply: "embedded_code (reply r c m) = Inr (JStr c)"
  by (simp add: embedded_code_def messages0_def reply_def)

lemma reply_facts:
  "embedded_message (reply r c m) = Inr (JStr m)"
  "response_member (reply r c m) k = getProp r k"
  "truthy (reply r c m)"
  by (simp_all add: embedded_message_def messages0_def response_member_def reply_def)

lemma isTokenResponse_reply:
  "isTokenResponse (reply (JObj props) c m) =
     (\<exists>t. map_of props ''token'' = Some (JStr t))"
proof (cases "map_of props ''token''")
  case None
  then have "''token'' \<notin> fst ` set props" by (simp add: map_of_eq_None_iff)
  with None show ?thesis by (simp add: isTokenResponse_def reply_def)
next
  case (Some v)
  then have "''token'' \<in> fst ` set props" by (metis map_of_eq_None_iff option.distinct(1))
  with Some show ?thesis by (cases v) (simp_all add: isTokenResponse_def reply_def)
qed

section \<open>The claims\<close>

text \<open>
  Claim C1, as amended. The three envelope operations classify a result as follows.
  \<open>findRecords\<close>: no response or a falsy one gives INVALID_RESPONSE; a readable
  \<^verbatim>\<open>messages[0].code\<close> other than the string \<open>0\<close> gives FILEMAKER_ERROR with
  exactly that code and the reply's \<^verbatim>\<open>messages[0].message\<close>, also on status 200; a
  read that throws gives API_ERROR; code \<open>0\<close> gives success with
  \<^verbatim>\<open>response.response.data\<close>.
  \<open>getFileMakerToken\<close>: the same, except that a response without the token shape
  gives INVALID_RESPONSE whatever its embedded code, and success carries the token.
  \<open>getLayoutMetaData\<close>: it has no INVALID_RESPONSE; every transport failure is an
  API_ERROR, a code other than \<open>0\<close> gives FILEMAKER_ERROR, and success carries the
  whole decoded reply.
\<close>

theorem result_classification:
  "(\<not> isTokenResponse (delivered (token_outcome rt db)) \<longrightarrow>
      getFileMakerToken rt db =
        Inr (failure INVALID_RESPONSE (JStr invalid_response_message)
               [(''url'', JStr (sessions_url rt db))])) \<and>
   (isTokenResponse (delivered (token_outcome rt db)) \<and>
    embedded_code (delivered (token_outcome rt db)) = Inr c \<and> c \<noteq> JStr ''0'' \<longrightarrow>
      (\<exists>m. embedded_message (delivered (token_outcome rt db)) = Inr m \<and>
           getFileMakerToken rt db =
             Inr (failure FILEMAKER_ERROR m [(''code'', c), (''url'', JStr (sessions_url rt db))]))) \<and>
   (isTokenResponse (delivered (token_outcome rt db)) \<and>
    embedded_code (delivered (token_outcome rt db)) = Inl e \<longrightarrow>
      getFileMakerToken rt db =
        Inr (failure API_ERROR (JStr (error_message e))
               [(''url'', JStr (sessions_url rt db)), (''originalError'', JStr (String_error e))])) \<and>
   (isTokenResponse (delivered (token_outcome rt db)) \<and>
    embedded_code (delivered (token_outcome rt db)) = Inr (JStr ''0'') \<longrightarrow>
      (\<exists>t. response_member (delivered (token_outcome rt db)) ''token'' = Inr (JStr t) \<and>
           getFileMakerToken rt db = Inr (succeed (JObj [(''token'', JStr t)])))) \<and>
   (\<not> truthy (delivered (find_outcome rt fname stext token fileName layoutName)) \<longrightarrow>
      findRecords rt fname stext token fileName layoutName =
        Inr (failure INVALID_RESPONSE (JStr invalid_response_message)
               [(''fileName'', JStr fileName), (''layoutName'', JStr layoutName)])) \<and>
   (embedded_code (delivered (find_outcome rt fname stext token fileName layoutName)) = Inr c \<and>
    c \<noteq> JStr ''0'' \<longrightarrow>
      (\<exists>m. embedded_message (delivered (find_outcome rt fname stext token fileName layoutName)) = Inr m \<and>
           findRecords rt fname stext token fileName layoutName =
             Inr (failure FILEMAKER_ERROR m
                    [(''code'', c), (''fileName'', JStr fileName), (''layoutName'', JStr layoutName)]))) \<and>
   (truthy (delivered (find_outcome rt fname stext token fileName layoutName)) \<and>
    embedded_code (delivered (find_outcome rt fname stext token fileName layoutName)) = Inl e \<longrightarrow>
      findRecords rt fname stext token fileName layoutName =
        Inr (failure API_ERROR (JStr (error_message e))
               [(''fileName'', JStr fileName), (''layoutName'', JStr layoutName),
                (''originalError'', JStr (String_error e))])) \<and>
   (embedded_code (delivered (find_outcome rt fname stext token fileName layoutName)) = Inr (JStr ''0'') \<and>
    response_member (delivered (find_outcome rt fname stext token fileName layoutName)) ''data'' = Inr d \<longrightarrow>
      findRecords rt fname stext token fileName layoutName = Inr (succeed d)) \<and>
   (embedded_code (delivered (find_outcome rt fname stext token fileName layoutName)) = Inr (JStr ''0'') \<and>
    response_member (delivered (find_outcome rt fname stext token fileName layoutName)) ''data'' = Inl e \<longrightarrow>
      findRecords rt fname stext token fileName layoutName =
        Inr (failure API_ERROR (JStr (error_message e))
               [(''fileName'', JStr fileName), (''layoutName'', JStr layoutName),
                (''originalError'', JStr (String_error e))])) \<and>
   (transport_failure (metadata_outcome rt fileName layoutName token) \<longrightarrow>
      (\<exists>x. getLayoutMetaData rt fileName layoutName token =
             Inr (failure API_ERROR (JStr (error_message x))
                    [(''fileName'', JStr fileName), (''layoutName'', JStr layoutName),
                     (''originalError'', JStr (String_error x))]))) \<and>
   (\<not> transport_failure (metadata_outcome rt fileName layoutName token) \<and>
    embedded_code (delivered (metadata_outcome rt fileName layoutName token)) = Inl e \<longrightarrow>
      getLayoutMetaData rt fileName layoutName token =
        Inr (failure API_ERROR (JStr (error_message e))
               [(''fileName'', JStr fileName), (''layoutName'', JStr layoutName),
                (''originalError'', JStr (String_error e))])) \<and>
   (embedded_code (delivered (metadata_outcome rt fileName layoutName token)) = Inr c \<and>
    c \<noteq> JStr ''0'' \<longrightarrow>
      (\<exists>m. embedded_message (delivered (metadata_outcome rt fileName layoutName token)) = Inr m \<and>
           getLayoutMetaData rt fileName layoutName token =
             Inr (failure FILEMAKER_ERROR m
                    [(''code'', c), (''fileName'', JStr fileName), (''layoutName'', JStr layoutName)]))) \<and>
   (embedded_code (delivered (metadata_outcome rt fileName layoutName token)) = Inr (JStr ''0'') \<longrightarrow>
      getLayoutMetaData rt fileName layoutName token =
        Inr (succeed (delivered (metadata_outcome rt fileName layoutName token))))"
  (is "?T1 \<and> ?T2 \<and> ?T3 \<and> ?T4 \<and> ?F1 \<and> ?F2 \<and> ?F3 \<and> ?F4 \<and> ?F5 \<and> ?M1 \<and> ?M2 \<and> ?M3 \<and> ?M4")
proof -
  have t1: ?T1 by (blast intro: getFileMakerToken_invalid)
  have t2: ?T2 by (blast intro: getFileMakerToken_filemaker_error_ex)
  have t3: ?T3 by (blast intro: getFileMakerToken_unreadable)
  have t4: ?T4 by (blast intro: getFileMakerToken_success_ex)
  have f1: ?F1 by (blast intro: findRecords_absent)
  have f2: ?F2 by (blast intro: findRecords_filemaker_error_ex)
  have f3: ?F3 by (blast intro: findRecords_unreadable)
  have f4: ?F4 by (blast intro: findRecords_success)
  have f5: ?F5 by (blast intro: findRecords_no_response_member)
  have m1: ?M1 by (blast intro: getLayoutMetaData_transport_failure)
  have m2: ?M2 by (blast intro: getLayoutMetaData_delivered_unreadable)
  have m3: ?M3 by (blast intro: getLayoutMetaData_delivered_filemaker_error)
  have m4: ?M4 by (blast intro: getLayoutMetaData_delivered_success)
  from t1 t2 t3 t4 f1 f2 f3 f4 f5 m1 m2 m3 m4 show ?thesis by (intro conjI)
qed

theorem result_classification_witness:
  "getFileMakerToken (stub (Rejected (JsError ''TypeError'' ''fetch failed''))) ''db'' =
     Inr (failure INVALID_RESPONSE (JStr invalid_response_message)
            [(''url'', JStr ''https://fm.example/fmi/data/v1/databases/db/sessions'')]) \<and>
   findRecords (stub (Rejected (JsError ''TypeError'' ''fetch failed''))) ''name'' ''Tanaka'' ''tok'' ''db'' ''people'' =
     Inr (failure INVALID_RESPONSE (JStr invalid_response_message)
            [(''fileName'', JStr ''db''), (''layoutName'', JStr ''people'')]) \<and>
   (\<exists>x. getLayoutMetaData (stub (Rejected (JsError ''TypeError'' ''fetch failed''))) ''db'' ''people'' ''tok'' =
      Inr (failure API_ERROR (JStr (error_message x))
             [(''fileName'', JStr ''db''), (''layoutName'', JStr ''people''),
              (''originalError'', JStr (String_error x))])) \<and>
   getFileMakerToken
       (stub (Responded 200 (Decoded (reply (JObj [(''token'', JStr ''abc'')]) ''401'' ''No records match the request''))))
       ''db'' =
     Inr (failure FILEMAKER_ERROR (JStr ''No records match the request'')
            [(''code'', JStr ''401''),
             (''url'', JStr ''https://fm.example/fmi/data/v1/databases/db/sessions'')]) \<and>
   findRecords
       (stub (Responded 200 (Decoded (reply (JObj [(''token'', JStr ''abc'')]) ''401'' ''No records match the request''))))
       ''name'' ''Tanaka'' ''tok'' ''db'' ''people'' =
     Inr (failure FILEMAKER_ERROR (JStr ''No records match the request'')
            [(''code'', JStr ''401''), (''fileName'', JStr ''db''), (''layoutName'', JStr ''people'')]) \<and>
   getLayoutMetaData
       (stub (Responded 200 (Decoded (reply (JObj [(''token'', JStr ''abc'')]) ''401'' ''No records match the request''))))
       ''db'' ''people'' ''tok'' =
     Inr (failure FILEMAKER_ERROR (JStr ''No records match the request'')
            [(''code'', JStr ''401''), (''fileName'', JStr ''db''), (''layoutName'', JStr ''people'')]) \<and>
   getFileMakerToken
       (stub (Responded 200 (Decoded (reply (JObj [(''token'', JStr ''abc''), (''data'', JArr [JObj [(''id'', JNum ''1'')]])]) ''0'' ''OK''))))
       ''db'' =
     Inr (succeed (JObj [(''token'', JStr ''abc'')])) \<and>
   findRecords
       (stub (Responded 200 (Decoded (reply (JObj [(''token'', JStr ''abc''), (''data'', JArr [JObj [(''id'', JNum ''1'')]])]) ''0'' ''OK''))))
       ''name'' ''Tanaka'' ''tok'' ''db'' ''people'' =
     Inr (succeed (JArr [JObj [(''id'', JNum ''1'')]])) \<and>
   getLayoutMetaData
       (stub (Responded 200 (Decoded (reply (JObj [(''token'', JStr ''abc''), (''data'', JArr [JObj [(''id'', JNum ''1'')]])]) ''0'' ''OK''))))
       ''db'' ''people'' ''tok'' =
     Inr (succeed (reply (JObj [(''token'', JStr ''abc''), (''data'', JArr [JObj [(''id'', JNum ''1'')]])]) ''0'' ''OK'')) \<and>
   getFileMakerToken (stub (Responded 200 (Decoded (JObj [(''response'', JObj [(''token'', JStr ''abc'')])])))) ''db'' =
     Inr (failure API_ERROR (JStr (error_message (TypeError_read ''undefined'' ''0'')))
            [(''url'', JStr ''https://fm.example/fmi/data/v1/databases/db/sessions''),
             (''originalError'', JStr (String_error (TypeError_read ''undefined'' ''0'')))]) \<and>
   findRecords (stub (Responded 200 (Decoded (JObj [(''response'', JObj [(''token'', JStr ''abc'')])]))))
       ''name'' ''Tanaka'' ''tok'' ''db'' ''people'' =
     Inr (failure API_ERROR (JStr (error_message (TypeError_read ''undefined'' ''0'')))
            [(''fileName'', JStr ''db''), (''layoutName'', JStr ''people''),
             (''originalError'', JStr (String_error (TypeError_read ''undefined'' ''0'')))]) \<and>
   getLayoutMetaData (stub (Responded 200 (Decoded (JObj [(''response'', JObj [(''token'', JStr ''abc'')])]))))
       ''db'' ''people'' ''tok'' =
     Inr (failure API_ERROR (JStr (error_message (TypeError_read ''undefined'' ''0'')))
            [(''fileName'', JStr ''db''), (''layoutName'', JStr ''people''),
             (''originalError'', JStr (String_error (TypeError_read ''undefined'' ''0'')))]) \<and>
   findRecords (stub (Responded 200 (Decoded (JObj [(''messages'', JArr [JObj [(''code'', JStr ''0'')]])]))))
       ''name'' ''Tanaka'' ''tok'' ''db'' ''people'' =
     Inr (failure API_ERROR (JStr (error_message (TypeError_read ''undefined'' ''data'')))
            [(''fileName'', JStr ''db''), (''layoutName'', JStr ''people''),
             (''originalError'', JStr (String_error (TypeError_read ''undefined'' ''data'')))])"
  using
    result_classification [where rt = "stub (Rejected (JsError ''TypeError'' ''fetch failed''))"
      and db = "''db''" and fname = "''name''" and stext = "''Tanaka''" and token = "''tok''"
      and fileName = "''db''" and layoutName = "''people''"
      and c = "JStr ''401''" and e = "NonError []" and d = JNull]
    result_classification [where
      rt = "stub (Responded 200 (Decoded (reply (JObj [(''token'', JStr ''abc'')]) ''401'' ''No records match the request'')))"
      and db = "''db''" and fname = "''name''" and stext = "''Tanaka''" and token = "''tok''"
      and fileName = "''db''" and layoutName = "''people''"
      and c = "JStr ''401''" and e = "NonError []" and d = JNull]
    result_classification [where
      rt = "stub (Responded 200 (Decoded (reply (JObj [(''token'', JStr ''abc''), (''data'', JArr [JObj [(''id'', JNum ''1'')]])]) ''0'' ''OK'')))"
      and db = "''db''" and fname = "''name''" and stext = "''Tanaka''" and token = "''tok''"
      and fileName = "''db''" and layoutName = "''people''"
      and c = "JStr ''0''" and e = "NonError []" and d = "JArr [JObj [(''id'', JNum ''1'')]]"]
    result_classification [where
      rt = "stub (Responded 200 (Decoded (JObj [(''response'', JObj [(''token'', JStr ''abc'')])])))"
      and db = "''db''" and fname = "''name''" and stext = "''Tanaka''" and token = "''tok''"
      and fileName = "''db''" and layoutName = "''people''"
      and c = "JStr ''0''" and e = "TypeError_read ''undefined'' ''0''" and d = JNull]
    result_classification [where
      rt = "stub (Responded 200 (Decoded (JObj [(''messages'', JArr [JObj [(''code'', JStr ''0'')]])])))"
      and db = "''db''" and fname = "''name''" and stext = "''Tanaka''" and token = "''tok''"
      and fileName = "''db''" and layoutName = "''people''"
      and c = "JStr ''0''" and e = "TypeError_read ''undefined'' ''data''" and d = JNull]
  by (simp add: stub_outcomes stub_sessions_url stub_delivered_ok null_facts transport_failure_def
      ok_def reply_def isTokenResponse_def embedded_code_def embedded_message_def messages0_def
      response_member_def)

text \<open>
  As stated the claim fails. A reply with status 200 and embedded code \<open>212\<close> but
  no token makes \<open>getFileMakerToken\<close> return INVALID_RESPONSE, not FILEMAKER_ERROR;
  and for one and the same reply (status 200, body \<open>null\<close>) \<open>findRecords\<close> returns
  INVALID_RESPONSE where \<open>getLayoutMetaData\<close> returns API_ERROR.
\<close>

theorem result_classification_counterexample:
  "ok 200 \<and>
   embedded_code (reply (JObj []) ''212'' ''Invalid user account or password'') = Inr (JStr ''212'') \<and>
   getFileMakerToken
       (stub (Responded 200 (Decoded (reply (JObj []) ''212'' ''Invalid user account or password''))))
       ''db'' =
     Inr (failure INVALID_RESPONSE (JStr invalid_response_message)
            [(''url'', JStr ''https://fm.example/fmi/data/v1/databases/db/sessions'')]) \<and>
   findRecords (stub (Responded 200 (Decoded JNull))) ''name'' ''Tanaka'' ''tok'' ''db'' ''people'' =
     Inr (failure INVALID_RESPONSE (JStr invalid_response_message)
            [(''fileName'', JStr ''db''), (''layoutName'', JStr ''people'')]) \<and>
   getLayoutMetaData (stub (Responded 200 (Decoded JNull))) ''db'' ''people'' ''tok'' =
     Inr (failure API_ERROR (JStr (error_message (TypeError_read ''null'' ''messages'')))
            [(''fileName'', JStr ''db''), (''layoutName'', JStr ''people''),
             (''originalError'', JStr (String_error (TypeError_read ''null'' ''messages'')))])"
proof -
  have "\<not> isTokenResponse (delivered (token_outcome
      (stub (Responded 200 (Decoded (reply (JObj []) ''212'' ''Invalid user account or password'')))) ''db''))"
    by (simp add: stub_outcomes stub_delivered_ok isTokenResponse_reply)
  then have t: "getFileMakerToken
       (stub (Responded 200 (Decoded (reply (JObj []) ''212'' ''Invalid user account or password''))))
       ''db'' =
     Inr (failure INVALID_RESPONSE (JStr invalid_response_message)
            [(''url'', JStr ''https://fm.example/fmi/data/v1/databases/db/sessions'')])"
    by (simp add: getFileMakerToken_invalid stub_sessions_url)
  have "\<not> truthy (delivered (find_outcome (stub (Responded 200 (Decoded JNull)))
      ''name'' ''Tanaka'' ''tok'' ''db'' ''people''))"
    by (simp add: stub_outcomes stub_delivered_ok)
  then have f: "findRecords (stub (Responded 200 (Decoded JNull))) ''name'' ''Tanaka'' ''tok'' ''db'' ''people'' =
     Inr (failure INVALID_RESPONSE (JStr invalid_response_message)
            [(''fileName'', JStr ''db''), (''layoutName'', JStr ''people'')])"
    by (rule findRecords_absent)
  have m: "getLayoutMetaData (stub (Responded 200 (Decoded JNull))) ''db'' ''people'' ''tok'' =
     Inr (failure API_ERROR (JStr (error_message (TypeError_read ''null'' ''messages'')))
            [(''fileName'', JStr ''db''), (''layoutName'', JStr ''people''),
             (''originalError'', JStr (String_error (TypeError_read ''null'' ''messages'')))])"
    by (rule getLayoutMetaData_unreadable [where status = 200 and d = JNull])
       (simp_all add: stub_outcomes ok_def null_facts)
  from t f m show ?thesis by (simp add: ok_def embedded_code_reply)
qed

text \<open>
  Claim C2. For every transport failure (the call rejects, the status is not 2xx, or
  the body does not decode) the token, find and metadata operations return a failure
  envelope whose error type is API_ERROR or INVALID_RESPONSE: the token and find
  operations give INVALID_RESPONSE, the metadata operation API_ERROR. None of the
  three ever throws: on every input each returns an envelope.
\<close>

theorem transport_failure_enveloped:
  "(transport_failure (token_outcome rt db) \<longrightarrow>
      (\<exists>env. getFileMakerToken rt db = Inr env \<and> \<not> success env \<and>
             error_kind env = Some INVALID_RESPONSE)) \<and>
   (transport_failure (find_outcome rt fname stext token fileName layoutName) \<longrightarrow>
      (\<exists>env. findRecords rt fname stext token fileName layoutName = Inr env \<and> \<not> success env \<and>
             error_kind env = Some INVALID_RESPONSE)) \<and>
   (transport_failure (metadata_outcome rt fileName layoutName token) \<longrightarrow>
      (\<exists>env. getLayoutMetaData rt fileName layoutName token = Inr env \<and> \<not> success env \<and>
             error_kind env = Some API_ERROR)) \<and>
   (\<exists>env. getFileMakerToken rt db = Inr env) \<and>
   (\<exists>env. findRecords rt fname stext token fileName layoutName = Inr env) \<and>
   (\<exists>env. getLayoutMetaData rt fileName layoutName token = Inr env)"
proof -
  have a: "transport_failure (token_outcome rt db) \<longrightarrow>
      (\<exists>env. getFileMakerToken rt db = Inr env \<and> \<not> success env \<and>
             error_kind env = Some INVALID_RESPONSE)"
  proof
    assume "transport_failure (token_outcome rt db)"
    then have "delivered (token_outcome rt db) = JNull" by (rule transport_failure_delivered)
    then have "\<not> isTokenResponse (delivered (token_outcome rt db))"
      by (simp add: isTokenResponse_def)
    then show "\<exists>env. getFileMakerToken rt db = Inr env \<and> \<not> success env \<and>
             error_kind env = Some INVALID_RESPONSE"
      by (simp add: getFileMakerToken_invalid failure_facts)
  qed
  have b: "transport_failure (find_outcome rt fname stext token fileName layoutName) \<longrightarrow>
      (\<exists>env. findRecords rt fname stext token fileName layoutName = Inr env \<and> \<not> success env \<and>
             error_kind env = Some INVALID_RESPONSE)"
  proof
    assume "transport_failure (find_outcome rt fname stext token fileName layoutName)"
    then have "delivered (find_outcome rt fname stext token fileName layoutName) = JNull"
      by (rule transport_failure_delivered)
    then have "\<not> truthy (delivered (find_outcome rt fname stext token fileName layoutName))"
      by simp
    then show "\<exists>env. findRecords rt fname stext token fileName layoutName = Inr env \<and> \<not> success env \<and>
             error_kind env = Some INVALID_RESPONSE"
      by (simp add: findRecords_absent failure_facts)
  qed
  have c: "transport_failure (metadata_outcome rt fileName layoutName token) \<longrightarrow>
      (\<exists>env. getLayoutMetaData rt fileName layoutName token = Inr env \<and> \<not> success env \<and>
             error_kind env = Some API_ERROR)"
  proof
    assume "transport_failure (metadata_outcome rt fileName layoutName token)"
    then obtain e where "getLayoutMetaData rt fileName layoutName token =
           Inr (failure API_ERROR (JStr (error_message e))
                  [(''fileName'', JStr fileName), (''layoutName'', JStr layoutName),
                   (''originalError'', JStr (String_error e))])"
      using getLayoutMetaData_transport_failure by blast
    then show "\<exists>env. getLayoutMetaData rt fileName layoutName token = Inr env \<and> \<not> success env \<and>
             error_kind env = Some API_ERROR"
      by (simp add: failure_facts)
  qed
  from a b c getFileMakerToken_returns findRecords_returns getLayoutMetaData_returns
  show ?thesis by blast
qed

theorem transport_failure_enveloped_witness:
  "transport_failure (token_outcome (stub (Rejected (JsError ''TypeError'' ''fetch failed''))) ''db'') \<and>
   transport_failure (find_outcome (stub (Rejected (JsError ''TypeError'' ''fetch failed''))) ''name'' ''Tanaka'' ''tok'' ''db'' ''people'') \<and>
   transport_failure (metadata_outcome (stub (Rejected (JsError ''TypeError'' ''fetch failed''))) ''db'' ''people'' ''tok'') \<and>
   (\<exists>env. getFileMakerToken (stub (Rejected (JsError ''TypeError'' ''fetch failed''))) ''db'' = Inr env \<and>
      \<not> success env \<and> error_kind env = Some INVALID_RESPONSE) \<and>
   (\<exists>env. findRecords (stub (Rejected (JsError ''TypeError'' ''fetch failed''))) ''name'' ''Tanaka'' ''tok'' ''db'' ''people'' = Inr env \<and>
      \<not> success env \<and> error_kind env = Some INVALID_RESPONSE) \<and>
   (\<exists>env. getLayoutMetaData (stub (Rejected (JsError ''TypeError'' ''fetch failed''))) ''db'' ''people'' ''tok'' = Inr env \<and>
      \<not> success env \<and> error_kind env = Some API_ERROR)"
  using transport_failure_enveloped [of "stub (Rejected (JsError ''TypeError'' ''fetch failed''))"
      "''db''" "''name''" "''Tanaka''" "''tok''" "''db''" "''people''"]
  by (simp add: stub_outcomes transport_failure_def)

text \<open>
  Claim C3. \<open>abandonFileMakerToken\<close> throws whenever the HTTP call fails (rejection,
  status outside 200 to 299, undecodable body) and whenever the embedded code of the
  reply is not the string \<open>0\<close> (an unreadable code included); for a reply with
  embedded code \<open>0\<close> it returns normally with no payload. It is the only operation
  that propagates: the three envelope operations return an envelope on every input.
\<close>

theorem abandon_propagates:
  "(transport_failure (abandon_outcome rt fileName token) \<longrightarrow>
      (\<exists>e. abandonFileMakerToken rt fileName token = Inl e)) \<and>
   (abandon_outcome rt fileName token = Responded status (Decoded d) \<and> ok status \<and>
    embedded_code d \<noteq> Inr (JStr ''0'') \<longrightarrow>
      (\<exists>e. abandonFileMakerToken rt fileName token = Inl e)) \<and>
   (abandon_outcome rt fileName token = Responded status (Decoded d) \<and> ok status \<and>
    embedded_code d = Inr (JStr ''0'') \<longrightarrow>
      abandonFileMakerToken rt fileName token = Inr ()) \<and>
   (\<exists>env. getFileMakerToken rt db = Inr env) \<and>
   (\<exists>env. findRecords rt fname stext token' fileName' layoutName = Inr env) \<and>
   (\<exists>env. getLayoutMetaData rt fileName' layoutName token' = Inr env)"
proof -
  have a: "transport_failure (abandon_outcome rt fileName token) \<longrightarrow>
      (\<exists>e. abandonFileMakerToken rt fileName token = Inl e)"
  proof
    assume "transport_failure (abandon_outcome rt fileName token)"
    then show "\<exists>e. abandonFileMakerToken rt fileName token = Inl e"
    proof (cases rule: transport_failure_cases)
      case (1 e)
      then show ?thesis by (blast intro: abandon_rejected)
    next
      case (2 status b)
      then show ?thesis by (blast intro: abandon_status)
    next
      case (3 status e)
      then show ?thesis by (blast intro: abandon_undecodable)
    qed
  qed
  have b: "abandon_outcome rt fileName token = Responded status (Decoded d) \<and> ok status \<and>
    embedded_code d \<noteq> Inr (JStr ''0'') \<longrightarrow>
      (\<exists>e. abandonFileMakerToken rt fileName token = Inl e)"
  proof
    assume h: "abandon_outcome rt fileName token = Responded status (Decoded d) \<and> ok status \<and>
      embedded_code d \<noteq> Inr (JStr ''0'')"
    show "\<exists>e. abandonFileMakerToken rt fileName token = Inl e"
    proof (cases "embedded_code d")
      case (Inl e)
      with h show ?thesis by (blast intro: abandon_unreadable)
    next
      case (Inr c)
      with h have "c \<noteq> JStr ''0''" by simp
      with h Inr show ?thesis by (blast intro: abandon_nonzero)
    qed
  qed
  have c: "abandon_outcome rt fileName token = Responded status (Decoded d) \<and> ok status \<and>
    embedded_code d = Inr (JStr ''0'') \<longrightarrow>
      abandonFileMakerToken rt fileName token = Inr ()"
    by (blast intro: abandon_zero)
  from a b c getFileMakerToken_returns findRecords_returns getLayoutMetaData_returns
  show ?thesis by blast
qed

theorem abandon_propagates_witness:
  "transport_failure (abandon_outcome (stub (Responded 500 (Undecodable (JsError ''SyntaxError'' ''Unexpected token'')))) ''db'' ''tok'') \<and>
   (\<exists>e. abandonFileMakerToken (stub (Responded 500 (Undecodable (JsError ''SyntaxError'' ''Unexpected token'')))) ''db'' ''tok'' = Inl e) \<and>
   ok 200 \<and>
   embedded_code (reply (JObj []) ''952'' ''Invalid FileMaker Data API token'') \<noteq> Inr (JStr ''0'') \<and>
   (\<exists>e. abandonFileMakerToken (stub (Responded 200 (Decoded (reply (JObj []) ''952'' ''Invalid FileMaker Data API token'')))) ''db'' ''tok'' = Inl e) \<and>
   embedded_code (reply (JObj []) ''0'' ''OK'') = Inr (JStr ''0'') \<and>
   abandonFileMakerToken (stub (Responded 200 (Decoded (reply (JObj []) ''0'' ''OK'')))) ''db'' ''tok'' = Inr ()"
  using abandon_propagates [of "stub (Responded 500 (Undecodable (JsError ''SyntaxError'' ''Unexpected token'')))"
      "''db''" "''tok''" 500 JNull "''db''" "''name''" "''Tanaka''" "''tok''" "''db''" "''people''"]
    abandon_propagates [of "stub (Responded 200 (Decoded (reply (JObj []) ''952'' ''Invalid FileMaker Data API token'')))"
      "''db''" "''tok''" 200 "reply (JObj []) ''952'' ''Invalid FileMaker Data API token''" "''db''" "''name''" "''Tanaka''" "''tok''" "''db''" "''people''"]
    abandon_propagates [of "stub (Responded 200 (Decoded (reply (JObj []) ''0'' ''OK'')))"
      "''db''" "''tok''" 200 "reply (JObj []) ''0'' ''OK''" "''db''" "''name''" "''Tanaka''" "''tok''" "''db''" "''people''"]
  by (simp add: stub_outcomes transport_failure_def ok_def embedded_code_reply)






text \<open>
  Claim C6, as amended. On every input each envelope operation returns an envelope.
  A success of \<open>getFileMakerToken\<close> carries an object with a string token, a success
  of \<open>getLayoutMetaData\<close> carries the decoded reply, an object; a success of
  \<open>findRecords\<close> carries the reply's \<^verbatim>\<open>response.data\<close>, which is undefined when the
  reply has none. A failure carries an error whose message is a string for
  INVALID_RESPONSE and API_ERROR, and for FILEMAKER_ERROR is whatever the reply holds at
  \<^verbatim>\<open>messages[0].message\<close>.
\<close>

theorem envelope_contents:
  "(\<exists>env. getFileMakerToken rt db = Inr env \<and>
      (if success env
       then (\<exists>t. data env = JObj [(''token'', JStr t)])
       else failure_message_from (delivered (token_outcome rt db)) env)) \<and>
   (\<exists>env. getLayoutMetaData rt fileName layoutName token = Inr env \<and>
      (if success env
       then data env = delivered (metadata_outcome rt fileName layoutName token) \<and>
            (\<exists>props. data env = JObj props)
       else failure_message_from (delivered (metadata_outcome rt fileName layoutName token)) env)) \<and>
   (\<exists>env. findRecords rt fname stext token fileName layoutName = Inr env \<and>
      (if success env
       then response_member (delivered (find_outcome rt fname stext token fileName layoutName)) ''data''
              = Inr (data env)
       else failure_message_from (delivered (find_outcome rt fname stext token fileName layoutName)) env))"
proof (intro conjI)
  show "\<exists>env. getFileMakerToken rt db = Inr env \<and>
      (if success env
       then (\<exists>t. data env = JObj [(''token'', JStr t)])
       else failure_message_from (delivered (token_outcome rt db)) env)"
    by (rule getFileMakerToken_contents)
next
  from getLayoutMetaData_contents [of rt fileName layoutName token]
  show "\<exists>env. getLayoutMetaData rt fileName layoutName token = Inr env \<and>
      (if success env
       then data env = delivered (metadata_outcome rt fileName layoutName token) \<and>
            (\<exists>props. data env = JObj props)
       else failure_message_from (delivered (metadata_outcome rt fileName layoutName token)) env)"
    by blast
next
  show "\<exists>env. findRecords rt fname stext token fileName layoutName = Inr env \<and>
      (if success env
       then response_member (delivered (find_outcome rt fname stext token fileName layoutName)) ''data''
              = Inr (data env)
       else failure_message_from (delivered (find_outcome rt fname stext token fileName layoutName)) env)"
    by (rule findRecords_contents)
qed

theorem envelope_contents_witness:
  "(\<exists>env. getFileMakerToken
            (stub (Responded 200 (Decoded (reply (JObj [(''token'', JStr ''abc'')]) ''0'' ''OK'')))) ''db'' = Inr env \<and>
          success env \<and> data env = JObj [(''token'', JStr ''abc'')]) \<and>
   (\<exists>env. findRecords
            (stub (Responded 200 (Decoded (reply (JObj [(''token'', JStr ''abc'')]) ''0'' ''OK''))))
            ''name'' ''Tanaka'' ''tok'' ''db'' ''people'' = Inr env \<and>
          success env \<and> data env = JUndefined) \<and>
   (\<exists>env. getLayoutMetaData
            (stub (Responded 200 (Decoded (reply (JObj [(''token'', JStr ''abc'')]) ''0'' ''OK''))))
            ''db'' ''people'' ''tok'' = Inr env \<and>
          success env \<and> data env = reply (JObj [(''token'', JStr ''abc'')]) ''0'' ''OK'')"
proof -
  let ?rt = "stub (Responded 200 (Decoded (reply (JObj [(''token'', JStr ''abc'')]) ''0'' ''OK'')))"
  have t: "getFileMakerToken ?rt ''db'' = Inr (succeed (JObj [(''token'', JStr ''abc'')]))"
    by (rule getFileMakerToken_success)
       (simp_all add: stub_outcomes stub_delivered_ok isTokenResponse_reply embedded_code_reply reply_facts)
  have m: "getLayoutMetaData ?rt ''db'' ''people'' ''tok'' =
      Inr (succeed (reply (JObj [(''token'', JStr ''abc'')]) ''0'' ''OK''))"
    by (rule getLayoutMetaData_success [where status = 200])
       (simp_all add: stub_outcomes ok_def embedded_code_reply)
  have f: "findRecords ?rt ''name'' ''Tanaka'' ''tok'' ''db'' ''people'' = Inr (succeed JUndefined)"
    by (rule findRecords_success)
       (simp_all add: stub_outcomes stub_delivered_ok embedded_code_reply reply_facts)
  from envelope_contents [of ?rt "''db''" "''db''" "''people''" "''tok''" "''name''" "''Tanaka''"]
  show ?thesis by (simp add: t m f succeed_facts)
qed

text \<open>
  As stated the claim fails on \<open>findRecords\<close>: a reply with code \<open>0\<close> and no
  \<open>data\<close> gives a success without payload, and a reply with code \<open>401\<close> and no
  \<open>message\<close> gives a failure whose message is undefined.
\<close>

theorem envelope_contents_counterexample:
  "findRecords
     (stub (Responded 200 (Decoded (JObj [(''response'', JObj []),
                                           (''messages'', JArr [JObj [(''code'', JStr ''0'')]])]))))
     ''name'' ''Tanaka'' ''tok'' ''db'' ''people'' =
     Inr \<lparr>success = True, data = JUndefined, error = None\<rparr> \<and>
   findRecords
     (stub (Responded 200 (Decoded (JObj [(''messages'', JArr [JObj [(''code'', JStr ''401'')]])]))))
     ''name'' ''Tanaka'' ''tok'' ''db'' ''people'' =
     Inr \<lparr>success = False, data = JUndefined,
          error = Some \<lparr>type = FILEMAKER_ERROR, message = JUndefined,
                        details = [(''code'', JStr ''401''), (''fileName'', JStr ''db''),
                                   (''layoutName'', JStr ''people'')]\<rparr>\<rparr>"
proof -
  have a: "findRecords
     (stub (Responded 200 (Decoded (JObj [(''response'', JObj []),
                                           (''messages'', JArr [JObj [(''code'', JStr ''0'')]])]))))
     ''name'' ''Tanaka'' ''tok'' ''db'' ''people'' = Inr (succeed JUndefined)"
    by (rule findRecords_success)
       (simp_all add: stub_outcomes stub_delivered_ok embedded_code_def messages0_def response_member_def)
  have b: "findRecords
     (stub (Responded 200 (Decoded (JObj [(''messages'', JArr [JObj [(''code'', JStr ''401'')]])]))))
     ''name'' ''Tanaka'' ''tok'' ''db'' ''people'' =
     Inr (failure FILEMAKER_ERROR JUndefined
            [(''code'', JStr ''401''), (''fileName'', JStr ''db''), (''layoutName'', JStr ''people'')])"
    by (rule findRecords_filemaker_error)
       (simp_all add: stub_outcomes stub_delivered_ok embedded_code_def embedded_message_def messages0_def)
  from a b show ?thesis by (simp add: succeed_def failure_def)
qed

text \<open>
  Claim C7. A response that is present but lacks the shape
  \<^verbatim>\<open>{response: {token: string}}\<close> must make the acquire-token operation return
  INVALID_RESPONSE, not success and not API_ERROR. The client of part 001 does so
  (lemma \<open>getFileMakerToken_invalid\<close>). The snapshot with the token tool alone
  (index.ts, lines 453 to 506) tests the response for absence only: for a reply with
  code \<open>0\<close> and an empty \<open>response\<close> it returns success with an undefined token, and
  for a reply with code \<open>0\<close> and no \<open>response\<close> it returns API_ERROR.
\<close>

theorem unguarded_token_snapshot:
  "truthy (reply (JObj []) ''0'' ''OK'') \<and>
   \<not> isTokenResponse (reply (JObj []) ''0'' ''OK'') \<and>
   getFileMakerToken_index_453 (stub (Responded 200 (Decoded (reply (JObj []) ''0'' ''OK''))))
       ''db'' None None None =
     Inr \<lparr>success = True, data = JObj [(''token'', JUndefined)], error = None\<rparr> \<and>
   truthy (JObj [(''messages'', JArr [JObj [(''code'', JStr ''0''), (''message'', JStr ''OK'')]])]) \<and>
   \<not> isTokenResponse (JObj [(''messages'', JArr [JObj [(''code'', JStr ''0''), (''message'', JStr ''OK'')]])]) \<and>
   getFileMakerToken_index_453
       (stub (Responded 200 (Decoded
          (JObj [(''messages'', JArr [JObj [(''code'', JStr ''0''), (''message'', JStr ''OK'')]])]))))
       ''db'' None None None =
     Inr (failure API_ERROR (JStr (error_message (TypeError_read ''undefined'' ''token'')))
            [(''url'', JStr ''https://fm.example/fmi/data/v1/databases/db/sessions''),
             (''originalError'', JStr (String_error (TypeError_read ''undefined'' ''token'')))])"
  by (simp add: getFileMakerToken_index_453_def makeFileMakerRequest_part_000_delivered
      stub_def stub_delivered_ok DEFAULT_SERVER_URL_part_000_def Let_def succeed_def
      reply_def isTokenResponse_def embedded_code_def embedded_message_def messages0_def
      response_member_def)




text \<open>
  Claim C9. The reduction of the field descriptors to name, type, displayType,
  result, valueList and global is idempotent: whenever it yields a list, applying it
  to that list yields the same list. It yields a list for every list of descriptors,
  that is, whenever no element is null or undefined.
\<close>

theorem fieldInfo_idempotent:
  "(fieldInfo fieldMetaData = Inr reduced \<longrightarrow> fieldInfo reduced = Inr reduced) \<and>
   ((\<forall>field \<in> set fieldMetaData. field \<noteq> JUndefined \<and> field \<noteq> JNull) \<longrightarrow>
      (\<exists>reduced. fieldInfo fieldMetaData = Inr reduced))"
proof
  show "fieldInfo fieldMetaData = Inr reduced \<longrightarrow> fieldInfo reduced = Inr reduced"
    unfolding fieldInfo_def using map_array_idem [of reduce_descriptor] reduce_descriptor_idem
    by blast
next
  show "(\<forall>field \<in> set fieldMetaData. field \<noteq> JUndefined \<and> field \<noteq> JNull) \<longrightarrow>
      (\<exists>reduced. fieldInfo fieldMetaData = Inr reduced)"
  proof
    assume h: "\<forall>field \<in> set fieldMetaData. field \<noteq> JUndefined \<and> field \<noteq> JNull"
    have "\<exists>y. reduce_descriptor x = Inr y" if "x \<in> set fieldMetaData" for x
      using that h by (simp add: reduce_descriptor_defined)
    then show "\<exists>reduced. fieldInfo fieldMetaData = Inr reduced"
      unfolding fieldInfo_def by (rule map_array_total)
  qed
qed

theorem fieldInfo_idempotent_witness:
  "fieldInfo [JObj [(''name'', JStr ''age''), (''type'', JStr ''normal''), (''displayType'', JStr ''editText''),
                    (''result'', JStr ''number''), (''global'', JBool False), (''maxRepeat'', JNum ''1'')]]
     = Inr [JObj [(''name'', JStr ''age''), (''type'', JStr ''normal''), (''displayType'', JStr ''editText''),
                  (''result'', JStr ''number''), (''valueList'', JUndefined), (''global'', JBool False)]] \<and>
   fieldInfo [JObj [(''name'', JStr ''age''), (''type'', JStr ''normal''), (''displayType'', JStr ''editText''),
                  (''result'', JStr ''number''), (''valueList'', JUndefined), (''global'', JBool False)]]
     = Inr [JObj [(''name'', JStr ''age''), (''type'', JStr ''normal''), (''displayType'', JStr ''editText''),
                  (''result'', JStr ''number''), (''valueList'', JUndefined), (''global'', JBool False)]]"
  using fieldInfo_idempotent [of
      "[JObj [(''name'', JStr ''age''), (''type'', JStr ''normal''), (''displayType'', JStr ''editText''),
              (''result'', JStr ''number''), (''global'', JBool False), (''maxRepeat'', JNum ''1'')]]"
      "[JObj [(''name'', JStr ''age''), (''type'', JStr ''normal''), (''displayType'', JStr ''editText''),
                  (''result'', JStr ''number''), (''valueList'', JUndefined), (''global'', JBool False)]]"]
  by (simp add: fieldInfo_def reduce_descriptor_def)

text \<open>
  Claim C10. For one and the same reply with a status outside 200 to 299, the two
  operations that go through the transport helper (\<open>getFileMakerToken\<close> and
  \<open>findRecords\<close>) return INVALID_RESPONSE, because the helper turns the failure into
  null, while \<open>getLayoutMetaData\<close>, which calls \<^verbatim>\<open>fetch\<close> itself, returns API_ERROR
  with the message of the HTTP status.
\<close>

theorem non_2xx_asymmetry:
  assumes "\<not> ok status"
    and "token_outcome rt db = Responded status b"
    and "find_outcome rt fname stext token fileName layoutName = Responded status b"
    and "metadata_outcome rt fileName layoutName token = Responded status b"
  shows "getFileMakerToken rt db =
           Inr (failure INVALID_RESPONSE (JStr invalid_response_message)
                  [(''url'', JStr (sessions_url rt db))]) \<and>
         findRecords rt fname stext token fileName layoutName =
           Inr (failure INVALID_RESPONSE (JStr invalid_response_message)
                  [(''fileName'', JStr fileName), (''layoutName'', JStr layoutName)]) \<and>
         getLayoutMetaData rt fileName layoutName token =
           Inr (failure API_ERROR (JStr (http_error_message status))
                  [(''fileName'', JStr fileName), (''layoutName'', JStr layoutName),
                   (''originalError'', JStr (''Error: '' @ http_error_message status))])"
proof -
  from assms(1,2) have "delivered (token_outcome rt db) = JNull"
    by (simp add: delivered_def)
  then have "\<not> isTokenResponse (delivered (token_outcome rt db))"
    by (simp add: isTokenResponse_def)
  then have t: "getFileMakerToken rt db =
           Inr (failure INVALID_RESPONSE (JStr invalid_response_message)
                  [(''url'', JStr (sessions_url rt db))])"
    by (rule getFileMakerToken_invalid)
  from assms(1,3) have "delivered (find_outcome rt fname stext token fileName layoutName) = JNull"
    by (simp add: delivered_def)
  then have "\<not> truthy (delivered (find_outcome rt fname stext token fileName layoutName))"
    by simp
  then have f: "findRecords rt fname stext token fileName layoutName =
           Inr (failure INVALID_RESPONSE (JStr invalid_response_message)
                  [(''fileName'', JStr fileName), (''layoutName'', JStr layoutName)])"
    by (rule findRecords_absent)
  have m: "getLayoutMetaData rt fileName layoutName token =
           Inr (failure API_ERROR (JStr (http_error_message status))
                  [(''fileName'', JStr fileName), (''layoutName'', JStr layoutName),
                   (''originalError'', JStr (''Error: '' @ http_error_message status))])"
    using getLayoutMetaData_status [OF assms(4,1)] by (simp only: String_error_http)
  from t f m show ?thesis by simp
qed

theorem non_2xx_asymmetry_witness:
  "\<not> ok 404 \<and>
   getFileMakerToken (stub (Responded 404 (Decoded (reply (JObj []) ''105'' ''Layout is missing'')))) ''db'' =
     Inr (failure INVALID_RESPONSE (JStr invalid_response_message)
            [(''url'', JStr ''https://fm.example/fmi/data/v1/databases/db/sessions'')]) \<and>
   findRecords (stub (Responded 404 (Decoded (reply (JObj []) ''105'' ''Layout is missing''))))
       ''name'' ''Tanaka'' ''tok'' ''db'' ''people'' =
     Inr (failure INVALID_RESPONSE (JStr invalid_response_message)
            [(''fileName'', JStr ''db''), (''layoutName'', JStr ''people'')]) \<and>
   getLayoutMetaData (stub (Responded 404 (Decoded (reply (JObj []) ''105'' ''Layout is missing''))))
       ''db'' ''people'' ''tok'' =
     Inr (failure API_ERROR (JStr (http_error_message 404))
            [(''fileName'', JStr ''db''), (''layoutName'', JStr ''people''),
             (''originalError'', JStr (''Error: '' @ http_error_message 404))])"
  using non_2xx_asymmetry [of 404 "stub (Responded 404 (Decoded (reply (JObj []) ''105'' ''Layout is missing'')))"
      "''db''" "Decoded (reply (JObj []) ''105'' ''Layout is missing'')" "''name''" "''Tanaka''" "''tok''" "''db''" "''people''"]
  by (simp add: stub_outcomes ok_def stub_sessions_url)

end
